theory Spec2Isabelle
  imports Main "HOL-Library.AList"
begin

section \<open>Errors\<close>

text \<open>
  The error classes of \<^verbatim>\<open>worktree/errors.ts\<close>: \<^verbatim>\<open>WorktreeError\<close> is the base
  class (constructed with the message itself), the four subclasses build their message
  from a name. \<^verbatim>\<open>ProcessSpawnError\<close> is the error of the process package, built
  from the command and the details as the test suite of the shell entry builds it.
  \<open>ExternalError\<close> stands for any other \<^verbatim>\<open>Error\<close> made by a collaborator package
  whose classes are not part of the modelled sources (git, process): it carries the
  message and the \<^verbatim>\<open>exitCode\<close> property when the object has one.
\<close>

datatype error =
    WorktreeError string
  | WorktreeNotFoundError string
  | WorktreeAlreadyExistsError string
  | InvalidWorktreeNameError string
  | BranchNotFoundError string
  | ProcessSpawnError string string
  | ExternalError string "int option"

definition quoted :: "string \<Rightarrow> string" where
  "quoted n = CHR 0x27 # n @ [CHR 0x27]"

fun message :: "error \<Rightarrow> string" where
  "message (WorktreeError m) = m"
| "message (WorktreeNotFoundError n) = ''Worktree '' @ quoted n @ '' not found''"
| "message (WorktreeAlreadyExistsError n) = ''Worktree '' @ quoted n @ '' already exists''"
| "message (InvalidWorktreeNameError n) = ''Invalid worktree name: '' @ quoted n"
| "message (BranchNotFoundError b) = ''Branch '' @ quoted b @ '' not found''"
| "message (ProcessSpawnError c d) = ''Error executing command '' @ quoted c @ '': '' @ d"
| "message (ExternalError m c) = m"

text \<open>\<^verbatim>\<open>e instanceof WorktreeError\<close>: the base class and its four subclasses.\<close>

fun instanceofWorktreeError :: "error \<Rightarrow> bool" where
  "instanceofWorktreeError (ExternalError m c) = False"
| "instanceofWorktreeError (ProcessSpawnError c d) = False"
| "instanceofWorktreeError e = True"

fun instanceofWorktreeNotFoundError :: "error \<Rightarrow> bool" where
  "instanceofWorktreeNotFoundError (WorktreeNotFoundError n) = True"
| "instanceofWorktreeNotFoundError e = False"

text \<open>
  The value of \<^verbatim>\<open>"exitCode" in e ? (e.exitCode ?? d) : d\<close> is \<open>d\<close> unless the
  object has a non-nullish \<^verbatim>\<open>exitCode\<close>; the worktree errors have no such property.
\<close>

fun errorExitCode :: "error \<Rightarrow> int option" where
  "errorExitCode (ExternalError m c) = c"
| "errorExitCode e = None"

section \<open>Process requests\<close>

datatype stdio_mode = Ignore | Inherit | Pipe

text \<open>
  Node's \<^verbatim>\<open>StdioOptions\<close>: one mode for all streams (\<^verbatim>\<open>"inherit"\<close>) or an array
  with one mode per file descriptor.
\<close>

datatype stdio_options = StdioAll stdio_mode | StdioArray "stdio_mode list"

fun stdioOf :: "stdio_options \<Rightarrow> nat \<Rightarrow> stdio_mode option" where
  "stdioOf (StdioAll m) fd = (if fd < 3 then Some m else None)"
| "stdioOf (StdioArray ms) fd = (if fd < length ms then Some (ms ! fd) else None)"

record spawn_options =
  cwd :: string
  stdio :: "stdio_options option"
  env :: "(string \<times> string) list option"

text \<open>
  \<^verbatim>\<open>const [cmd, ...args] = command\<close> leaves \<^verbatim>\<open>cmd\<close> undefined for an empty
  array, so the command of a request is optional.
\<close>

record spawn_config =
  command :: "string option"
  args :: "string list"
  options :: spawn_options

record spawn_success =
  exitCode :: int

record worktree_validation =
  path :: string

section \<open>Configuration values\<close>

text \<open>
  \<^verbatim>\<open>validateConfig\<close> receives an \<^verbatim>\<open>unknown\<close>: any JavaScript value. Numbers
  carry an integer payload here, the validator never looks at it. An object is its list
  of properties; reading a property that is missing gives \<^verbatim>\<open>undefined\<close>.
\<close>

datatype jsvalue =
    JUndefined
  | JNull
  | JBoolean bool
  | JNumber int
  | JString string
  | JArray "jsvalue list"
  | JObject "(string \<times> jsvalue) list"

fun getProp :: "jsvalue \<Rightarrow> string \<Rightarrow> jsvalue" where
  "getProp (JObject kvs) k = (case map_of kvs k of None \<Rightarrow> JUndefined | Some v \<Rightarrow> v)"
| "getProp v k = JUndefined"

text \<open>
  Modelled from the spec: \<^verbatim>\<open>isObject\<close>, the type guard of the shared package, is not
  part of the modelled sources. The configuration is ``an object'' whose sections are
  objects: the guard accepts exactly the non-null, non-array objects.
\<close>

fun isObject :: "jsvalue \<Rightarrow> bool" where
  "isObject (JObject kvs) = True"
| "isObject v = False"

fun isArray :: "jsvalue \<Rightarrow> bool" where
  "isArray (JArray vs) = True"
| "isArray v = False"

fun isString :: "jsvalue \<Rightarrow> bool" where
  "isString (JString x) = True"
| "isString v = False"

text \<open>\<^verbatim>\<open>xs.every(p)\<close> on a value already known to be an array.\<close>

fun every :: "(jsvalue \<Rightarrow> bool) \<Rightarrow> jsvalue \<Rightarrow> bool" where
  "every p (JArray vs) = list_all p vs"
| "every p v = False"

text \<open>
  The errors of the configuration loader. \<^verbatim>\<open>ConfigValidationError\<close> is built from
  the reason and prefixes it; the two loader classes carry their message.
\<close>

datatype config_error =
    ConfigNotFoundError string
  | ConfigParseError string
  | ConfigValidationError string

fun configMessage :: "config_error \<Rightarrow> string" where
  "configMessage (ConfigNotFoundError m) = m"
| "configMessage (ConfigParseError m) = m"
| "configMessage (ConfigValidationError m) = ''Invalid phantom.config.json: '' @ m"

text \<open>
  The validator. The two tests of each array are nested in the source (the element test
  is inside the test for presence, after the array test); here they follow each other, each
  guarded by the presence of the property.
\<close>

definition validateConfig :: "jsvalue \<Rightarrow> config_error + jsvalue" where
  "validateConfig config =
     (if \<not> isObject config
      then Inl (ConfigValidationError ''Configuration must be an object'')
      else
        (let cfg = config
         in if getProp cfg ''postCreate'' \<noteq> JUndefined
            then
              (if \<not> isObject (getProp cfg ''postCreate'')
               then Inl (ConfigValidationError ''postCreate must be an object'')
               else
                 (let postCreate = getProp cfg ''postCreate''
                  in if getProp postCreate ''copyFiles'' \<noteq> JUndefined
                        \<and> \<not> isArray (getProp postCreate ''copyFiles'')
                     then Inl (ConfigValidationError ''postCreate.copyFiles must be an array'')
                     else if getProp postCreate ''copyFiles'' \<noteq> JUndefined
                        \<and> \<not> every isString (getProp postCreate ''copyFiles'')
                     then Inl (ConfigValidationError
                                 ''postCreate.copyFiles must contain only strings'')
                     else if getProp postCreate ''commands'' \<noteq> JUndefined
                        \<and> \<not> isArray (getProp postCreate ''commands'')
                     then Inl (ConfigValidationError ''postCreate.commands must be an array'')
                     else if getProp postCreate ''commands'' \<noteq> JUndefined
                        \<and> \<not> every isString (getProp postCreate ''commands'')
                     then Inl (ConfigValidationError
                                 ''postCreate.commands must contain only strings'')
                     else Inr config))
            else Inr config))"

text \<open>
  The schema the configuration is declared to have, section by section: what a value
  must look like to be read as \<^verbatim>\<open>{postCreate?: {copyFiles?: string[], commands?:
  string[]}, postDelete?: {commands?: string[]}}\<close>.
\<close>

definition stringArrayOrAbsent :: "jsvalue \<Rightarrow> bool" where
  "stringArrayOrAbsent v = (v = JUndefined \<or> (isArray v \<and> every isString v))"

definition postCreateShape :: "jsvalue \<Rightarrow> bool" where
  "postCreateShape v =
     (v = JUndefined \<or>
      (isObject v \<and> stringArrayOrAbsent (getProp v ''copyFiles'')
                 \<and> stringArrayOrAbsent (getProp v ''commands'')))"

definition postDeleteShape :: "jsvalue \<Rightarrow> bool" where
  "postDeleteShape v =
     (v = JUndefined \<or> (isObject v \<and> stringArrayOrAbsent (getProp v ''commands'')))"

definition matchesSchema :: "jsvalue \<Rightarrow> bool" where
  "matchesSchema config =
     (isObject config \<and> postCreateShape (getProp config ''postCreate'')
                      \<and> postDeleteShape (getProp config ''postDelete''))"

text \<open>The typed view of a loaded configuration that the delete handler reads.\<close>

record post_delete =
  commands :: "string list option"

record phantom_config =
  postDelete :: "post_delete option"

record delete_success =
  deleteMessage :: string

section \<open>Collaborators and the interaction trace\<close>

text \<open>
  Every call that leaves the modelled code (filesystem, git, process backend, loader,
  selector, terminal output) is recorded with its answer, in order. The collaborators
  themselves are parameters: functions of an arbitrary world \<open>'w\<close> that they may read
  and change. A collaborator that returns a \<^verbatim>\<open>Result\<close> answers \<open>Inl\<close> for
  \<^verbatim>\<open>err\<close>; \<^verbatim>\<open>getGitRoot\<close> and \<^verbatim>\<open>getCurrentWorktree\<close> return plain values and
  answer \<open>Inl\<close> when they throw.
\<close>

datatype event =
    ExistsSync string bool
  | BranchExists string string "error + bool"
  | AttachWorktree string string string "error + unit"
  | ValidateWorktreeExists string string "error + worktree_validation"
  | SpawnProcess spawn_config "error + spawn_success"
  | GetGitRoot "error + string"
  | LoadConfig string "config_error + phantom_config"
  | GetCurrentWorktree string "error + string option"
  | SelectWorktreeWithFzf string "error + string option"
  | DeleteWorktree string string bool "error + delete_success"
  | OutputLog string
  | OutputWarn string
  | OutputError string

record 'w system =
  world :: 'w
  trace :: "event list"

record 'w collaborators =
  validateWorktreeName :: "string \<Rightarrow> error + unit"
  getWorktreePath :: "string \<Rightarrow> string \<Rightarrow> string"
  existsSync :: "string \<Rightarrow> 'w \<Rightarrow> bool"
  branchExists :: "string \<Rightarrow> string \<Rightarrow> 'w \<Rightarrow> (error + bool) \<times> 'w"
  attachWorktree :: "string \<Rightarrow> string \<Rightarrow> string \<Rightarrow> 'w \<Rightarrow> (error + unit) \<times> 'w"
  validateWorktreeExists :: "string \<Rightarrow> string \<Rightarrow> 'w \<Rightarrow> (error + worktree_validation) \<times> 'w"
  spawnProcess :: "spawn_config \<Rightarrow> 'w \<Rightarrow> (error + spawn_success) \<times> 'w"
  getGitRoot :: "'w \<Rightarrow> (error + string) \<times> 'w"
  loadConfig :: "string \<Rightarrow> 'w \<Rightarrow> (config_error + phantom_config) \<times> 'w"
  getCurrentWorktree :: "string \<Rightarrow> 'w \<Rightarrow> (error + string option) \<times> 'w"
  selectWorktreeWithFzf :: "string \<Rightarrow> 'w \<Rightarrow> (error + string option) \<times> 'w"
  deleteWorktree :: "string \<Rightarrow> string \<Rightarrow> bool \<Rightarrow> 'w \<Rightarrow> (error + delete_success) \<times> 'w"

definition record_call :: "('w \<Rightarrow> 'a \<times> 'w) \<Rightarrow> ('a \<Rightarrow> event) \<Rightarrow> 'w system \<Rightarrow> 'a \<times> 'w system" where
  "record_call f ev s =
     (let (r, w) = f (world s) in (r, \<lparr>world = w, trace = trace s @ [ev r]\<rparr>))"

definition callExistsSync ::
  "'w collaborators \<Rightarrow> string \<Rightarrow> 'w system \<Rightarrow> bool \<times> 'w system" where
  "callExistsSync co p = record_call (\<lambda>w. (existsSync co p w, w)) (ExistsSync p)"

definition callBranchExists ::
  "'w collaborators \<Rightarrow> string \<Rightarrow> string \<Rightarrow> 'w system \<Rightarrow> (error + bool) \<times> 'w system" where
  "callBranchExists co gitRoot b = record_call (branchExists co gitRoot b) (BranchExists gitRoot b)"

definition callAttachWorktree ::
  "'w collaborators \<Rightarrow> string \<Rightarrow> string \<Rightarrow> string \<Rightarrow> 'w system
     \<Rightarrow> (error + unit) \<times> 'w system" where
  "callAttachWorktree co gitRoot p b =
     record_call (attachWorktree co gitRoot p b) (AttachWorktree gitRoot p b)"

definition callValidateWorktreeExists ::
  "'w collaborators \<Rightarrow> string \<Rightarrow> string \<Rightarrow> 'w system
     \<Rightarrow> (error + worktree_validation) \<times> 'w system" where
  "callValidateWorktreeExists co gitRoot n =
     record_call (validateWorktreeExists co gitRoot n) (ValidateWorktreeExists gitRoot n)"

definition callSpawnProcess ::
  "'w collaborators \<Rightarrow> spawn_config \<Rightarrow> 'w system \<Rightarrow> (error + spawn_success) \<times> 'w system" where
  "callSpawnProcess co cfg = record_call (spawnProcess co cfg) (SpawnProcess cfg)"

definition callGetGitRoot :: "'w collaborators \<Rightarrow> 'w system \<Rightarrow> (error + string) \<times> 'w system" where
  "callGetGitRoot co = record_call (getGitRoot co) GetGitRoot"

definition callLoadConfig ::
  "'w collaborators \<Rightarrow> string \<Rightarrow> 'w system \<Rightarrow> (config_error + phantom_config) \<times> 'w system" where
  "callLoadConfig co gitRoot = record_call (loadConfig co gitRoot) (LoadConfig gitRoot)"

definition callGetCurrentWorktree ::
  "'w collaborators \<Rightarrow> string \<Rightarrow> 'w system \<Rightarrow> (error + string option) \<times> 'w system" where
  "callGetCurrentWorktree co gitRoot =
     record_call (getCurrentWorktree co gitRoot) (GetCurrentWorktree gitRoot)"

definition callSelectWorktreeWithFzf ::
  "'w collaborators \<Rightarrow> string \<Rightarrow> 'w system \<Rightarrow> (error + string option) \<times> 'w system" where
  "callSelectWorktreeWithFzf co gitRoot =
     record_call (selectWorktreeWithFzf co gitRoot) (SelectWorktreeWithFzf gitRoot)"

definition callDeleteWorktree ::
  "'w collaborators \<Rightarrow> string \<Rightarrow> string \<Rightarrow> bool \<Rightarrow> 'w system
     \<Rightarrow> (error + delete_success) \<times> 'w system" where
  "callDeleteWorktree co gitRoot n f =
     record_call (deleteWorktree co gitRoot n f) (DeleteWorktree gitRoot n f)"

text \<open>\<^verbatim>\<open>output.log\<close>, \<^verbatim>\<open>output.warn\<close> and \<^verbatim>\<open>output.error\<close> append a line to the trace.\<close>

definition emit :: "event \<Rightarrow> 'w system \<Rightarrow> 'w system" where
  "emit e s = s\<lparr>trace := trace s @ [e]\<rparr>"

fun isVcsEvent :: "event \<Rightarrow> bool" where
  "isVcsEvent (BranchExists g b r) = True"
| "isVcsEvent (AttachWorktree g p b r) = True"
| "isVcsEvent e = False"

fun isAttachEvent :: "event \<Rightarrow> bool" where
  "isAttachEvent (AttachWorktree g p b r) = True"
| "isAttachEvent e = False"

fun isSpawnEvent :: "event \<Rightarrow> bool" where
  "isSpawnEvent (SpawnProcess cfg r) = True"
| "isSpawnEvent e = False"

section \<open>Attaching a worktree (\<^verbatim>\<open>attachWorktreeCore\<close>)\<close>

definition attachWorktreeCore ::
  "'w collaborators \<Rightarrow> string \<Rightarrow> string \<Rightarrow> 'w system \<Rightarrow> (error + string) \<times> 'w system" where
  "attachWorktreeCore co gitRoot name s =
     (case validateWorktreeName co name of
        Inl e \<Rightarrow> (Inl e, s)
      | Inr u \<Rightarrow>
          (let worktreePath = getWorktreePath co gitRoot name;
               (ex, s1) = callExistsSync co worktreePath s
           in if ex then (Inl (WorktreeAlreadyExistsError name), s1)
              else
                (let (branchCheckResult, s2) = callBranchExists co gitRoot name s1
                 in case branchCheckResult of
                      Inl e \<Rightarrow> (Inl e, s2)
                    | Inr b \<Rightarrow>
                        if \<not> b then (Inl (BranchNotFoundError name), s2)
                        else
                          (let (attachResult, s3) =
                                 callAttachWorktree co gitRoot worktreePath name s2
                           in case attachResult of
                                Inl e \<Rightarrow> (Inl e, s3)
                              | Inr v \<Rightarrow> (Inr worktreePath, s3)))))"

text \<open>
  The order of checks as the specification words it, for comparison with the code: name
  validation, then existence of the path, then ``the backend reports that the branch does
  not exist'', and in every other case the delegation to the backend's attach.
\<close>

definition attachAsSpecified ::
  "'w collaborators \<Rightarrow> string \<Rightarrow> string \<Rightarrow> 'w system \<Rightarrow> error + string" where
  "attachAsSpecified co gitRoot name s =
     (case validateWorktreeName co name of
        Inl e \<Rightarrow> Inl e
      | Inr u \<Rightarrow>
          if existsSync co (getWorktreePath co gitRoot name) (world s)
          then Inl (WorktreeAlreadyExistsError name)
          else if fst (branchExists co gitRoot name (world s)) = Inr False
          then Inl (BranchNotFoundError name)
          else
            (case fst (attachWorktree co gitRoot (getWorktreePath co gitRoot name) name
                         (snd (branchExists co gitRoot name (world s)))) of
               Inl e \<Rightarrow> Inl e
             | Inr v \<Rightarrow> Inr (getWorktreePath co gitRoot name)))"

section \<open>Running a command in a worktree (\<^verbatim>\<open>execInWorktree\<close>)\<close>

text \<open>
  \<open>cmdArray\<close> is the source's \<^verbatim>\<open>command: string[]\<close>; \<open>interactive\<close> is
  \<^verbatim>\<open>options.interactive\<close>, absent when the caller passes no options.
\<close>

definition execInWorktree ::
  "'w collaborators \<Rightarrow> string \<Rightarrow> string \<Rightarrow> string list \<Rightarrow> bool option \<Rightarrow> 'w system
     \<Rightarrow> (error + spawn_success) \<times> 'w system" where
  "execInWorktree co gitRoot worktreeName cmdArray interactive s =
     (let (validation, s1) = callValidateWorktreeExists co gitRoot worktreeName s
      in case validation of
           Inl e \<Rightarrow> (Inl e, s1)
         | Inr v \<Rightarrow>
             (let worktreePath = path v;
                  cmd = (case cmdArray of [] \<Rightarrow> None | c # rest \<Rightarrow> Some c);
                  args = (case cmdArray of [] \<Rightarrow> [] | c # rest \<Rightarrow> rest);
                  stdio = (if interactive = Some True then StdioAll Inherit
                           else StdioArray [Ignore, Inherit, Inherit])
              in callSpawnProcess co
                   \<lparr>command = cmd, args = args,
                    options = \<lparr>cwd = worktreePath, stdio = Some stdio, env = None\<rparr>\<rparr> s1))"

text \<open>
  The request that lines 64 to 78 build for a validated worktree path, named so that the
  theorems can speak about it, and the mode it gives to each standard stream.
\<close>

definition execRequest :: "string \<Rightarrow> string list \<Rightarrow> bool option \<Rightarrow> spawn_config" where
  "execRequest worktreePath cmdArray interactive =
     \<lparr>command = (case cmdArray of [] \<Rightarrow> None | c # rest \<Rightarrow> Some c),
      args = (case cmdArray of [] \<Rightarrow> [] | c # rest \<Rightarrow> rest),
      options =
        \<lparr>cwd = worktreePath,
         stdio = Some (if interactive = Some True then StdioAll Inherit
                       else StdioArray [Ignore, Inherit, Inherit]),
         env = None\<rparr>\<rparr>"

definition streamMode :: "spawn_config \<Rightarrow> nat \<Rightarrow> stdio_mode option" where
  "streamMode cfg fd = (case stdio (options cfg) of None \<Rightarrow> None | Some so \<Rightarrow> stdioOf so fd)"

section \<open>The process backend\<close>

text \<open>
  What a started program does is the operating system's answer: the program could not be
  started (or errored as a process), or it ran and exited with a code.
\<close>

datatype child_outcome = CouldNotStart string | Exited int

text \<open>
  Modelled from the spec: \<^verbatim>\<open>spawnProcess\<close> of the process package is not part of the
  modelled sources, only its callers and its test double are. From the specification
  (6 and 7): \<^verbatim>\<open>spawn(command, args, {cwd, env, stdio})\<close> answers \<open>ok(exitCode)\<close> for a
  child that ran, whatever its exit code, and fails with ProcessSpawnError only when the
  child could not be started. \<open>runChild\<close> is the operating system.
\<close>

definition spawnProcessModel ::
  "(spawn_config \<Rightarrow> 'w \<Rightarrow> child_outcome \<times> 'w) \<Rightarrow> spawn_config \<Rightarrow> 'w
     \<Rightarrow> (error + spawn_success) \<times> 'w" where
  "spawnProcessModel runChild cfg w =
     (case runChild cfg w of
        (CouldNotStart d, w') \<Rightarrow>
          (Inl (ProcessSpawnError (case command cfg of None \<Rightarrow> ''undefined'' | Some c \<Rightarrow> c) d),
           w')
      | (Exited n, w') \<Rightarrow> (Inr \<lparr>exitCode = n\<rparr>, w'))"

section \<open>Entering a shell in a worktree\<close>

text \<open>\<^verbatim>\<open>process.env.SHELL || "/bin/sh"\<close>: an unset or empty variable gives the default.\<close>

definition userShell :: "(string \<times> string) list \<Rightarrow> string" where
  "userShell processEnv =
     (case map_of processEnv ''SHELL'' of
        None \<Rightarrow> ''/bin/sh''
      | Some sh \<Rightarrow> if sh = [] then ''/bin/sh'' else sh)"

text \<open>
  Modelled from the spec: \<^verbatim>\<open>getPhantomEnv\<close> of the process package is not part of the
  modelled sources; its test double gives the three variables: the ``active'' marker,
  the worktree's name and the worktree's path.
\<close>

definition getPhantomEnv :: "string \<Rightarrow> string \<Rightarrow> (string \<times> string) list" where
  "getPhantomEnv worktreeName worktreePath =
     [(''PHANTOM'', ''1''), (''PHANTOM_NAME'', worktreeName), (''PHANTOM_PATH'', worktreePath)]"

text \<open>
  Modelled from the spec: \<^verbatim>\<open>shellInWorktree\<close> is not part of the modelled sources,
  only its test suite and its caller are; \<open>shellRequest\<close> is the request it makes. From the specification (4.5) and the tests: it
  resolves the worktree through the validation service and returns the validation's
  failure without spawning; otherwise it spawns the user's shell (default
  \<^verbatim>\<open>/bin/sh\<close>) with no arguments, the worktree path as working directory and the
  caller's environment overridden by the three identifying variables, and returns the
  process backend's result. The specification fixes no stream setting for this path.
\<close>

definition shellRequest :: "(string \<times> string) list \<Rightarrow> string \<Rightarrow> string \<Rightarrow> spawn_config" where
  "shellRequest processEnv worktreeName worktreePath =
     \<lparr>command = Some (userShell processEnv), args = [],
      options =
        \<lparr>cwd = worktreePath, stdio = None,
         env = Some (AList.merge processEnv (getPhantomEnv worktreeName worktreePath))\<rparr>\<rparr>"

text \<open>
  Modelled from the spec: \<^verbatim>\<open>shellInWorktree\<close> (see above), the operation itself:
  validation first, and the request only for a worktree that exists.
\<close>

definition shellInWorktree ::
  "'w collaborators \<Rightarrow> (string \<times> string) list \<Rightarrow> string \<Rightarrow> string \<Rightarrow> string \<Rightarrow> 'w system
     \<Rightarrow> (error + spawn_success) \<times> 'w system" where
  "shellInWorktree co processEnv gitRoot worktreeDirectory worktreeName s =
     (let (validation, s1) = callValidateWorktreeExists co gitRoot worktreeName s
      in case validation of
           Inl e \<Rightarrow> (Inl e, s1)
         | Inr v \<Rightarrow>
             (let worktreePath = path v
              in callSpawnProcess co (shellRequest processEnv worktreeName worktreePath) s1))"

text \<open>
  What the specification asks of the environment of a spawned process: the marker, the
  worktree's name and its path are there.
\<close>

definition hasPhantomEnv :: "string \<Rightarrow> string \<Rightarrow> spawn_config \<Rightarrow> bool" where
  "hasPhantomEnv worktreeName worktreePath cfg =
     (case env (options cfg) of
        None \<Rightarrow> False
      | Some e \<Rightarrow> map_of e ''PHANTOM'' = Some ''1''
                \<and> map_of e ''PHANTOM_NAME'' = Some worktreeName
                \<and> map_of e ''PHANTOM_PATH'' = Some worktreePath)"

section \<open>The delete handler and its post-delete commands (\<^verbatim>\<open>deleteHandler\<close>)\<close>

text \<open>
  The handler works on the result of \<^verbatim>\<open>parseArgs\<close>. It ends by calling
  \<^verbatim>\<open>exitWithError(message, code)\<close> or \<^verbatim>\<open>exitWithSuccess()\<close>, which leave the
  process; the call it ends with is its result. The table \<^verbatim>\<open>exitCodes\<close> is not part
  of the modelled sources and is a parameter.
\<close>

record delete_args =
  force :: "bool option"
  current :: "bool option"
  fzf :: "bool option"
  positionals :: "string list"

record exit_codes =
  success :: int
  generalError :: int
  notFound :: int
  validationError :: int

datatype exit = ExitWithError string int | ExitWithSuccess

text \<open>\<^verbatim>\<open>s.includes(sub)\<close>\<close>

fun strIncludes :: "string \<Rightarrow> string \<Rightarrow> bool" where
  "strIncludes [] sub = (sub = [])"
| "strIncludes (c # cs) sub = (take (length sub) (c # cs) = sub \<or> strIncludes cs sub)"

text \<open>Lines 72 to 80: only a validation or parse error of the loader is shown.\<close>

definition warnConfig :: "config_error + phantom_config \<Rightarrow> 'w system \<Rightarrow> 'w system" where
  "warnConfig configResult s =
     (case configResult of
        Inl (ConfigValidationError m) \<Rightarrow>
          emit (OutputWarn (''Configuration warning: ''
                              @ configMessage (ConfigValidationError m))) s
      | Inl (ConfigParseError m) \<Rightarrow>
          emit (OutputWarn (''Configuration warning: '' @ configMessage (ConfigParseError m))) s
      | Inl (ConfigNotFoundError m) \<Rightarrow> s
      | Inr c \<Rightarrow> s)"

text \<open>
  Lines 82 to 103: the name comes from the current worktree, from the selector or from the
  first positional (the argument checks before leave no other case, so the list is not
  empty there). \<open>Inl\<close> is an exit taken on the way; an exception of
  \<^verbatim>\<open>getCurrentWorktree\<close> lands in the handler's \<^verbatim>\<open>catch\<close>.
\<close>

definition resolveWorktreeName ::
  "'w collaborators \<Rightarrow> exit_codes \<Rightarrow> delete_args \<Rightarrow> string \<Rightarrow> 'w system
     \<Rightarrow> (exit + string) \<times> 'w system" where
  "resolveWorktreeName co exitCodes a gitRoot s =
     (if current a = Some True
      then
        (let (currentWorktree, s1) = callGetCurrentWorktree co gitRoot s
         in case currentWorktree of
              Inl e \<Rightarrow> (Inl (ExitWithError (message e) (generalError exitCodes)), s1)
            | Inr None \<Rightarrow>
                (Inl (ExitWithError
                   ''Not in a worktree directory. The --current option can only be used from within a worktree.''
                   (validationError exitCodes)), s1)
            | Inr (Some n) \<Rightarrow>
                if n = []
                then (Inl (ExitWithError
                   ''Not in a worktree directory. The --current option can only be used from within a worktree.''
                   (validationError exitCodes)), s1)
                else (Inr n, s1))
      else if fzf a = Some True
      then
        (let (selectResult, s1) = callSelectWorktreeWithFzf co gitRoot s
         in case selectResult of
              Inl e \<Rightarrow> (Inl (ExitWithError (message e) (generalError exitCodes)), s1)
            | Inr None \<Rightarrow> (Inl ExitWithSuccess, s1)
            | Inr (Some n) \<Rightarrow> (Inr n, s1))
      else (Inr (hd (positionals a)), s))"

text \<open>Lines 110 to 116: the exit code for a failed deletion.\<close>

definition deleteExitCode :: "exit_codes \<Rightarrow> error \<Rightarrow> int" where
  "deleteExitCode exitCodes e =
     (if instanceofWorktreeNotFoundError e then validationError exitCodes
      else if instanceofWorktreeError e \<and> strIncludes (message e) ''uncommitted changes''
      then validationError exitCodes
      else generalError exitCodes)"

text \<open>
  Lines 127 to 152: the loop over the post-delete commands. \<open>Some x\<close> is the exit taken
  inside the loop, \<open>None\<close> means that the loop ran to its end.
\<close>

fun runPostDeleteCommands ::
  "'w collaborators \<Rightarrow> exit_codes \<Rightarrow> (string \<times> string) list \<Rightarrow> string \<Rightarrow> string list
     \<Rightarrow> 'w system \<Rightarrow> exit option \<times> 'w system" where
  "runPostDeleteCommands co exitCodes processEnv gitRoot [] s = (None, s)"
| "runPostDeleteCommands co exitCodes processEnv gitRoot (c # cs) s =
     (let s1 = emit (OutputLog (''Executing: '' @ c)) s;
          shell = userShell processEnv;
          (cmdResult, s2) = execInWorktree co gitRoot ''.'' [shell, ''-c'', c] None s1
      in case cmdResult of
           Inl e \<Rightarrow>
             (Some (ExitWithError (''Post-delete command failed: '' @ c)
                      (case errorExitCode e of
                         None \<Rightarrow> generalError exitCodes
                       | Some n \<Rightarrow> n)),
              emit (OutputError (''Failed to execute command: '' @ message e)) s2)
         | Inr v \<Rightarrow>
             if exitCode v \<noteq> 0
             then (Some (ExitWithError (''Post-delete command failed: '' @ c) (exitCode v)), s2)
             else runPostDeleteCommands co exitCodes processEnv gitRoot cs s2)"

text \<open>
  Lines 123 to 153: \<^verbatim>\<open>isOk(configResult) && configResult.value.postDelete?.commands\<close>;
  an array, even an empty one, is truthy.
\<close>

definition postDeleteCommandsOf :: "config_error + phantom_config \<Rightarrow> string list option" where
  "postDeleteCommandsOf configResult =
     (case configResult of
        Inl e \<Rightarrow> None
      | Inr c \<Rightarrow> (case postDelete c of None \<Rightarrow> None | Some pd \<Rightarrow> commands pd))"

text \<open>
  Lines 82 to 155, the handler once the configuration has been loaded: the name, the
  deletion, and the post-delete commands of a configuration that has them.
\<close>

definition deleteAndRunCommands ::
  "'w collaborators \<Rightarrow> exit_codes \<Rightarrow> (string \<times> string) list \<Rightarrow> delete_args \<Rightarrow> bool
     \<Rightarrow> string \<Rightarrow> config_error + phantom_config \<Rightarrow> 'w system \<Rightarrow> exit \<times> 'w system" where
  "deleteAndRunCommands co exitCodes processEnv a forceDelete gitRoot configResult s3 =
     (let (resolved, s4) = resolveWorktreeName co exitCodes a gitRoot s3
      in case resolved of
           Inl x \<Rightarrow> (x, s4)
         | Inr worktreeName \<Rightarrow>
             (let (result, s5) = callDeleteWorktree co gitRoot worktreeName forceDelete s4
              in case result of
                   Inl e \<Rightarrow> (ExitWithError (message e) (deleteExitCode exitCodes e), s5)
                 | Inr v \<Rightarrow>
                     (let s6 = emit (OutputLog (deleteMessage v)) s5
                      in case postDeleteCommandsOf configResult of
                           None \<Rightarrow> (ExitWithSuccess, s6)
                         | Some cmds \<Rightarrow>
                             (let s7 = emit (OutputLog
                                    (CHR 0x0A # ''Running post-delete commands...'')) s6;
                                  (x, s8) = runPostDeleteCommands co exitCodes processEnv
                                              gitRoot cmds s7
                              in case x of
                                   Some ex \<Rightarrow> (ex, s8)
                                 | None \<Rightarrow> (ExitWithSuccess, s8)))))"

text \<open>Lines 41 to 63: the three checks of the arguments, before anything is called.\<close>

definition argumentError :: "exit_codes \<Rightarrow> delete_args \<Rightarrow> exit option" where
  "argumentError exitCodes a =
     (let deleteCurrent = (current a = Some True);
          useFzf = (fzf a = Some True)
      in if positionals a = [] \<and> \<not> deleteCurrent \<and> \<not> useFzf
         then Some (ExitWithError
                 ''Please provide a worktree name to delete, use --current to delete the current worktree, or use --fzf for interactive selection''
                 (validationError exitCodes))
         else if (positionals a \<noteq> [] \<or> useFzf) \<and> deleteCurrent
         then Some (ExitWithError ''Cannot specify --current with a worktree name or --fzf option''
                 (validationError exitCodes))
         else if positionals a \<noteq> [] \<and> useFzf
         then Some (ExitWithError ''Cannot specify both a worktree name and --fzf option''
                 (validationError exitCodes))
         else None)"

text \<open>
  The whole handler: the argument checks, the repository root (an exception lands in the
  \<^verbatim>\<open>catch\<close>), the configuration and its warning, and the rest above.
\<close>

definition deleteHandler ::
  "'w collaborators \<Rightarrow> exit_codes \<Rightarrow> (string \<times> string) list \<Rightarrow> delete_args \<Rightarrow> 'w system
     \<Rightarrow> exit \<times> 'w system" where
  "deleteHandler co exitCodes processEnv a s =
     (case argumentError exitCodes a of
        Some x \<Rightarrow> (x, s)
      | None \<Rightarrow>
          (let forceDelete = (force a = Some True);
               (root, s1) = callGetGitRoot co s
           in case root of
                Inl e \<Rightarrow> (ExitWithError (message e) (generalError exitCodes), s1)
              | Inr gitRoot \<Rightarrow>
                  (let (configResult, s2) = callLoadConfig co gitRoot s1;
                       s3 = warnConfig configResult s2
                   in deleteAndRunCommands co exitCodes processEnv a forceDelete gitRoot
                        configResult s3)))"

text \<open>The shell commands handed to the process backend, in the order of the calls.\<close>

fun scriptOf :: "event \<Rightarrow> string list" where
  "scriptOf (SpawnProcess cfg r) = (case args cfg of [f, c] \<Rightarrow> [c] | xs \<Rightarrow> [])"
| "scriptOf e = []"

definition scriptsRun :: "event list \<Rightarrow> string list" where
  "scriptsRun t = concat (map scriptOf t)"

text \<open>
  What ``the command returns'' means for a sequence of commands: the answers of the
  collaborators when each command is handed over as \<^verbatim>\<open>sh -c command\<close> in the worktree
  \<^verbatim>\<open>.\<close>, one after the other, each in the world that the one before left. This asks
  every command, whatever a runner does with the answers.
\<close>

fun hookResults ::
  "'w collaborators \<Rightarrow> (string \<times> string) list \<Rightarrow> string \<Rightarrow> string list \<Rightarrow> 'w
     \<Rightarrow> (error + spawn_success) list" where
  "hookResults co processEnv gitRoot [] w = []"
| "hookResults co processEnv gitRoot (c # cs) w =
     (case validateWorktreeExists co gitRoot ''.'' w of
        (Inl e, w1) \<Rightarrow> Inl e # hookResults co processEnv gitRoot cs w1
      | (Inr v, w1) \<Rightarrow>
          (case spawnProcess co
                  \<lparr>command = Some (userShell processEnv), args = [''-c'', c],
                   options = \<lparr>cwd = path v,
                              stdio = Some (StdioArray [Ignore, Inherit, Inherit]),
                              env = None\<rparr>\<rparr> w1 of
             (r, w2) \<Rightarrow> r # hookResults co processEnv gitRoot cs w2))"

definition okZero :: "error + spawn_success \<Rightarrow> bool" where
  "okZero r = (case r of Inl e \<Rightarrow> False | Inr v \<Rightarrow> exitCode v = 0)"

fun isWarning :: "event \<Rightarrow> bool" where
  "isWarning (OutputWarn m) = True"
| "isWarning e = False"

fun isOutput :: "event \<Rightarrow> bool" where
  "isOutput (OutputLog m) = True"
| "isOutput (OutputWarn m) = True"
| "isOutput (OutputError m) = True"
| "isOutput e = False"

text \<open>A collaborator call that answered with an error.\<close>

fun failedCall :: "event \<Rightarrow> bool" where
  "failedCall (BranchExists g b (Inl e)) = True"
| "failedCall (AttachWorktree g p b (Inl e)) = True"
| "failedCall (ValidateWorktreeExists g n (Inl e)) = True"
| "failedCall (SpawnProcess cfg (Inl e)) = True"
| "failedCall (GetGitRoot (Inl e)) = True"
| "failedCall (LoadConfig g (Inl e)) = True"
| "failedCall (GetCurrentWorktree g (Inl e)) = True"
| "failedCall (SelectWorktreeWithFzf g (Inl e)) = True"
| "failedCall (DeleteWorktree g n f (Inl e)) = True"
| "failedCall e = False"

fun isConfigNotFound :: "event \<Rightarrow> bool" where
  "isConfigNotFound (LoadConfig g (Inl (ConfigNotFoundError m))) = True"
| "isConfigNotFound e = False"

section \<open>A simulated backend\<close>

text \<open>
  A small world to run the model on: the directories on disk, the branches of the
  repository and the programs started so far. Worktrees live under
  \<^verbatim>\<open>.git/phantom/worktrees\<close>; a name is rejected when it is empty or has a slash;
  a spawned \<^verbatim>\<open>sh -c false\<close> exits with 1, the program \<^verbatim>\<open>exit7\<close> with 7, anything
  else with 0, and a request without a program cannot be started.
\<close>

record sim_world =
  dirs :: "string list"
  branches :: "string list"
  started :: "string list"

definition simPath :: "string \<Rightarrow> string \<Rightarrow> string" where
  "simPath r n = r @ ''/.git/phantom/worktrees/'' @ n"

definition simBackend :: "sim_world collaborators" where
  "simBackend =
     \<lparr>validateWorktreeName =
        (\<lambda>n. if n = [] \<or> CHR ''/'' \<in> set n then Inl (InvalidWorktreeNameError n) else Inr ()),
      getWorktreePath = simPath,
      existsSync = (\<lambda>p w. p \<in> set (dirs w)),
      branchExists = (\<lambda>r b w. (Inr (b \<in> set (branches w)), w)),
      attachWorktree = (\<lambda>r p b w. (Inr (), w\<lparr>dirs := p # dirs w\<rparr>)),
      validateWorktreeExists =
        (\<lambda>r n w. (if simPath r n \<in> set (dirs w) then Inr \<lparr>path = simPath r n\<rparr>
                   else Inl (WorktreeNotFoundError n), w)),
      spawnProcess =
        (\<lambda>cfg w. case command cfg of
                    None \<Rightarrow> (Inl (ExternalError ''spawn failed'' None), w)
                  | Some c \<Rightarrow>
                      (Inr \<lparr>exitCode = (if args cfg = [''-c'', ''false''] then 1
                                         else if c = ''exit7'' then 7 else 0)\<rparr>,
                       w\<lparr>started := started w @ [c]\<rparr>)),
      getGitRoot = (\<lambda>w. (Inr ''/repo'', w)),
      loadConfig = (\<lambda>g w. (Inr \<lparr>postDelete = None\<rparr>, w)),
      getCurrentWorktree = (\<lambda>g w. (Inr None, w)),
      selectWorktreeWithFzf = (\<lambda>g w. (Inr None, w)),
      deleteWorktree =
        (\<lambda>g n f w. if simPath g n \<in> set (dirs w)
                    then (Inr \<lparr>deleteMessage = ''Deleted worktree '' @ quoted n\<rparr>,
                          w\<lparr>dirs := removeAll (simPath g n) (dirs w)\<rparr>)
                    else (Inl (WorktreeNotFoundError n), w))\<rparr>"

definition simStart :: "string list \<Rightarrow> string list \<Rightarrow> sim_world system" where
  "simStart ds bs = \<lparr>world = \<lparr>dirs = ds, branches = bs, started = []\<rparr>, trace = []\<rparr>"

definition simExitCodes :: exit_codes where
  "simExitCodes = \<lparr>success = 0, generalError = 1, notFound = 2, validationError = 3\<rparr>"

text \<open>The same backend with a git that cannot answer the branch query.\<close>

definition gitDown :: "sim_world collaborators" where
  "gitDown =
     simBackend\<lparr>branchExists :=
       (\<lambda>r b w. (Inl (ExternalError ''fatal: not a git repository'' (Some 128)), w))\<rparr>"

text \<open>The same backend outside of any repository.\<close>

definition noRepository :: "sim_world collaborators" where
  "noRepository =
     simBackend\<lparr>getGitRoot :=
       (\<lambda>w. (Inl (ExternalError ''fatal: not a git repository'' (Some 128)), w))\<rparr>"

text \<open>The same backend with a git whose attach fails.\<close>

definition attachFails :: "sim_world collaborators" where
  "attachFails =
     simBackend\<lparr>attachWorktree :=
       (\<lambda>r p b w. (Inl (ExternalError ''fatal: could not create work tree'' (Some 128)), w))\<rparr>"

text \<open>
  An operating system for the same world: the program \<^verbatim>\<open>exit7\<close> exits with 7, a request
  without a program cannot be started, anything else exits with 0.
\<close>

definition simChild :: "spawn_config \<Rightarrow> sim_world \<Rightarrow> child_outcome \<times> sim_world" where
  "simChild cfg w =
     (case command cfg of
        None \<Rightarrow> (CouldNotStart ''no program'', w)
      | Some c \<Rightarrow> (Exited (if c = ''exit7'' then 7 else 0), w\<lparr>started := started w @ [c]\<rparr>))"

text \<open>A backend whose process collaborator is the modelled one, over a given system.\<close>

definition withProcessBackend ::
  "(spawn_config \<Rightarrow> 'w \<Rightarrow> child_outcome \<times> 'w) \<Rightarrow> 'w collaborators \<Rightarrow> 'w collaborators" where
  "withProcessBackend runChild co = co\<lparr>spawnProcess := spawnProcessModel runChild\<rparr>"

text \<open>The same backend with a given answer of the configuration loader.\<close>

definition withConfig ::
  "(config_error + phantom_config) \<Rightarrow> 'w collaborators \<Rightarrow> 'w collaborators" where
  "withConfig r co = co\<lparr>loadConfig := (\<lambda>g w. (r, w))\<rparr>"

section \<open>Shared facts\<close>

lemmas call_defs = callExistsSync_def callBranchExists_def callAttachWorktree_def
  callValidateWorktreeExists_def callSpawnProcess_def callGetGitRoot_def callLoadConfig_def
  callGetCurrentWorktree_def callSelectWorktreeWithFzf_def callDeleteWorktree_def

lemmas sim_defs = simBackend_def simStart_def simPath_def gitDown_def attachFails_def
  withConfig_def simExitCodes_def

section \<open>Attach: the order of the checks\<close>

text \<open>
  Claim C1, as stated, lets every case that is not ``the backend reports that the branch
  does not exist'' go on to the backend's attach. The code has one more exit, at lines 23
  to 25: when the branch query itself fails, its error is returned and attach is not
  called. With a git that cannot answer, the code fails with git's error where the
  order of the claim gives the worktree path.
\<close>

theorem attach_branch_query_failure_counterexample:
  "fst (attachWorktreeCore gitDown ''/repo'' ''feature-x'' (simStart [] [''feature-x'']))
     = Inl (ExternalError ''fatal: not a git repository'' (Some 128))
   \<and> attachAsSpecified gitDown ''/repo'' ''feature-x'' (simStart [] [''feature-x''])
     = Inr ''/repo/.git/phantom/worktrees/feature-x''
   \<and> filter isAttachEvent
       (trace (snd (attachWorktreeCore gitDown ''/repo'' ''feature-x''
                      (simStart [] [''feature-x''])))) = []"
  by (simp add: attachWorktreeCore_def attachAsSpecified_def call_defs record_call_def sim_defs)

text \<open>
  Claim C1, amended: \<^verbatim>\<open>attach(root, name)\<close> performs its checks in this order and
  returns the first failure. It returns the failure of the name validation, touching
  nothing; otherwise it fails with WorktreeAlreadyExists when the computed path exists,
  without any call to the version-control backend; otherwise, when the backend's branch
  query fails, it returns that error unchanged and does not call attach; otherwise it
  fails with BranchNotFound when the backend reports that the branch does not exist, and
  does not call attach; otherwise it calls the backend's attach, returns its error
  unchanged when it fails, and returns the computed path when it succeeds.
\<close>

theorem attach_check_order:
  "(validateWorktreeName co name = Inl e \<longrightarrow>
      attachWorktreeCore co gitRoot name s = (Inl e, s))
   \<and> (validateWorktreeName co name = Inr ()
        \<and> existsSync co (getWorktreePath co gitRoot name) (world s) \<longrightarrow>
      fst (attachWorktreeCore co gitRoot name s) = Inl (WorktreeAlreadyExistsError name)
      \<and> filter isVcsEvent (trace (snd (attachWorktreeCore co gitRoot name s)))
          = filter isVcsEvent (trace s))
   \<and> (validateWorktreeName co name = Inr ()
        \<and> \<not> existsSync co (getWorktreePath co gitRoot name) (world s)
        \<and> branchExists co gitRoot name (world s) = (Inl e, w1) \<longrightarrow>
      fst (attachWorktreeCore co gitRoot name s) = Inl e
      \<and> filter isAttachEvent (trace (snd (attachWorktreeCore co gitRoot name s)))
          = filter isAttachEvent (trace s))
   \<and> (validateWorktreeName co name = Inr ()
        \<and> \<not> existsSync co (getWorktreePath co gitRoot name) (world s)
        \<and> branchExists co gitRoot name (world s) = (Inr False, w1) \<longrightarrow>
      fst (attachWorktreeCore co gitRoot name s) = Inl (BranchNotFoundError name)
      \<and> filter isAttachEvent (trace (snd (attachWorktreeCore co gitRoot name s)))
          = filter isAttachEvent (trace s))
   \<and> (validateWorktreeName co name = Inr ()
        \<and> \<not> existsSync co (getWorktreePath co gitRoot name) (world s)
        \<and> branchExists co gitRoot name (world s) = (Inr True, w1)
        \<and> attachWorktree co gitRoot (getWorktreePath co gitRoot name) name w1 = (Inl e, w2) \<longrightarrow>
      attachWorktreeCore co gitRoot name s =
        (Inl e,
         \<lparr>world = w2,
          trace = trace s @ [ExistsSync (getWorktreePath co gitRoot name) False,
                             BranchExists gitRoot name (Inr True),
                             AttachWorktree gitRoot (getWorktreePath co gitRoot name) name
                               (Inl e)]\<rparr>))
   \<and> (validateWorktreeName co name = Inr ()
        \<and> \<not> existsSync co (getWorktreePath co gitRoot name) (world s)
        \<and> branchExists co gitRoot name (world s) = (Inr True, w1)
        \<and> attachWorktree co gitRoot (getWorktreePath co gitRoot name) name w1 = (Inr (), w2) \<longrightarrow>
      attachWorktreeCore co gitRoot name s =
        (Inr (getWorktreePath co gitRoot name),
         \<lparr>world = w2,
          trace = trace s @ [ExistsSync (getWorktreePath co gitRoot name) False,
                             BranchExists gitRoot name (Inr True),
                             AttachWorktree gitRoot (getWorktreePath co gitRoot name) name
                               (Inr ())]\<rparr>))"
  by (simp add: attachWorktreeCore_def call_defs record_call_def Let_def)

text \<open>
  The six cases on the simulated backend: a name with a slash, a directory already there,
  a git that cannot answer, a missing branch, an attach that fails, and a success that
  leaves the new directory on disk.
\<close>

theorem attach_check_order_witness:
  "attachWorktreeCore simBackend ''/repo'' ''a/b'' (simStart [] [''main''])
     = (Inl (InvalidWorktreeNameError ''a/b''), simStart [] [''main''])
   \<and> fst (attachWorktreeCore simBackend ''/repo'' ''dev''
            (simStart [''/repo/.git/phantom/worktrees/dev''] [''dev'']))
     = Inl (WorktreeAlreadyExistsError ''dev'')
   \<and> fst (attachWorktreeCore gitDown ''/repo'' ''dev'' (simStart [] [''dev'']))
     = Inl (ExternalError ''fatal: not a git repository'' (Some 128))
   \<and> fst (attachWorktreeCore simBackend ''/repo'' ''dev'' (simStart [] [''main'']))
     = Inl (BranchNotFoundError ''dev'')
   \<and> fst (attachWorktreeCore attachFails ''/repo'' ''dev'' (simStart [] [''dev'']))
     = Inl (ExternalError ''fatal: could not create work tree'' (Some 128))
   \<and> fst (attachWorktreeCore simBackend ''/repo'' ''dev'' (simStart [] [''dev'']))
     = Inr ''/repo/.git/phantom/worktrees/dev''
   \<and> dirs (world (snd (attachWorktreeCore simBackend ''/repo'' ''dev'' (simStart [] [''dev'']))))
     = [''/repo/.git/phantom/worktrees/dev'']"
  using
    attach_check_order [of simBackend "''a/b''" "InvalidWorktreeNameError ''a/b''" "''/repo''"
      "simStart [] [''main'']"]
    attach_check_order [of simBackend "''dev''" _ "''/repo''"
      "simStart [''/repo/.git/phantom/worktrees/dev''] [''dev'']"]
    attach_check_order [of gitDown "''dev''" "ExternalError ''fatal: not a git repository'' (Some 128)"
      "''/repo''" "simStart [] [''dev'']" "world (simStart [] [''dev''])"]
    attach_check_order [of simBackend "''dev''" _ "''/repo''" "simStart [] [''main'']"
      "world (simStart [] [''main''])"]
    attach_check_order [of attachFails "''dev''"
      "ExternalError ''fatal: could not create work tree'' (Some 128)" "''/repo''"
      "simStart [] [''dev'']" "world (simStart [] [''dev''])" "world (simStart [] [''dev''])"]
    attach_check_order [of simBackend "''dev''" _ "''/repo''" "simStart [] [''dev'']"
      "world (simStart [] [''dev''])"
      "\<lparr>dirs = [''/repo/.git/phantom/worktrees/dev''], branches = [''dev''], started = []\<rparr>"]
  by (simp add: sim_defs)

section \<open>Attach: a missing branch\<close>

text \<open>
  Claim C3: for every root and every name that passes the name validation, with nothing at
  the computed path, whose branch the backend reports as not existing, attach fails with
  BranchNotFound and the backend's attach is never invoked: the only calls made are the
  existence check and the branch query, and the world is the one the branch query left.
\<close>

theorem attach_branch_not_found:
  assumes "validateWorktreeName co name = Inr ()"
    and "\<not> existsSync co (getWorktreePath co gitRoot name) (world s)"
    and "branchExists co gitRoot name (world s) = (Inr False, w)"
  shows "attachWorktreeCore co gitRoot name s =
           (Inl (BranchNotFoundError name),
            \<lparr>world = w,
             trace = trace s @ [ExistsSync (getWorktreePath co gitRoot name) False,
                                BranchExists gitRoot name (Inr False)]\<rparr>)
         \<and> filter isAttachEvent (trace (snd (attachWorktreeCore co gitRoot name s)))
             = filter isAttachEvent (trace s)"
  using assms by (simp add: attachWorktreeCore_def call_defs record_call_def)

theorem attach_branch_not_found_witness:
  "validateWorktreeName simBackend ''feature-x'' = Inr ()
   \<and> \<not> existsSync simBackend (getWorktreePath simBackend ''/repo'' ''feature-x'')
         (world (simStart [] [''main'']))
   \<and> branchExists simBackend ''/repo'' ''feature-x'' (world (simStart [] [''main'']))
       = (Inr False, world (simStart [] [''main'']))
   \<and> attachWorktreeCore simBackend ''/repo'' ''feature-x'' (simStart [] [''main'']) =
    (Inl (BranchNotFoundError ''feature-x''),
     \<lparr>world = \<lparr>dirs = [], branches = [''main''], started = []\<rparr>,
      trace = [ExistsSync ''/repo/.git/phantom/worktrees/feature-x'' False,
               BranchExists ''/repo'' ''feature-x'' (Inr False)]\<rparr>)"
  using attach_branch_not_found [of simBackend "''feature-x''" "''/repo''"
     "simStart [] [''main'']" "world (simStart [] [''main''])"]
  by (simp add: sim_defs)

section \<open>Attach: an existing path\<close>

text \<open>
  Claim C10: the already-exists failure of attach is decided by the filesystem alone. For
  every root and valid name, if anything exists at the computed worktree path, attach
  fails with WorktreeAlreadyExists, the world is untouched and the only call made is the
  existence check: the version-control backend is asked neither for the branch nor for
  the attachment, so a directory that no worktree record knows blocks attach as well.
\<close>

theorem attach_blocked_by_existing_path:
  assumes "validateWorktreeName co name = Inr ()"
    and "existsSync co (getWorktreePath co gitRoot name) (world s)"
  shows "attachWorktreeCore co gitRoot name s =
           (Inl (WorktreeAlreadyExistsError name),
            s\<lparr>trace := trace s @ [ExistsSync (getWorktreePath co gitRoot name) True]\<rparr>)
         \<and> filter isVcsEvent (trace (snd (attachWorktreeCore co gitRoot name s)))
             = filter isVcsEvent (trace s)"
  using assms by (simp add: attachWorktreeCore_def call_defs record_call_def)

text \<open>An orphaned directory: on disk, with a branch of that name, attached nowhere.\<close>

theorem attach_blocked_by_existing_path_witness:
  "validateWorktreeName simBackend ''orphan'' = Inr ()
   \<and> existsSync simBackend (getWorktreePath simBackend ''/repo'' ''orphan'')
         (world (simStart [''/repo/.git/phantom/worktrees/orphan''] [''main'', ''orphan'']))
   \<and> attachWorktreeCore simBackend ''/repo'' ''orphan''
         (simStart [''/repo/.git/phantom/worktrees/orphan''] [''main'', ''orphan'']) =
    (Inl (WorktreeAlreadyExistsError ''orphan''),
     \<lparr>world = \<lparr>dirs = [''/repo/.git/phantom/worktrees/orphan''],
               branches = [''main'', ''orphan''], started = []\<rparr>,
      trace = [ExistsSync ''/repo/.git/phantom/worktrees/orphan'' True]\<rparr>)"
  using attach_blocked_by_existing_path [of simBackend "''orphan''" "''/repo''"
     "simStart [''/repo/.git/phantom/worktrees/orphan''] [''main'', ''orphan'']"]
  by (simp add: sim_defs)

section \<open>Execution bridge\<close>

text \<open>
  Both operations unfolded: the validation call, and for a worktree that exists the one
  request to the process backend, whose answer is returned as it is.
\<close>

lemma exec_unfold:
  "execInWorktree co gitRoot name cmdArray interactive s =
     (case validateWorktreeExists co gitRoot name (world s) of
        (Inl e, w) \<Rightarrow>
          (Inl e, \<lparr>world = w, trace = trace s @ [ValidateWorktreeExists gitRoot name (Inl e)]\<rparr>)
      | (Inr v, w) \<Rightarrow>
          (case spawnProcess co (execRequest (path v) cmdArray interactive) w of
             (r, w') \<Rightarrow>
               (r, \<lparr>world = w',
                    trace = trace s @ [ValidateWorktreeExists gitRoot name (Inr v),
                                       SpawnProcess (execRequest (path v) cmdArray interactive) r]\<rparr>)))"
  by (simp add: execInWorktree_def execRequest_def call_defs record_call_def Let_def
      split: prod.splits sum.splits)

lemma shell_unfold:
  "shellInWorktree co processEnv gitRoot dir name s =
     (case validateWorktreeExists co gitRoot name (world s) of
        (Inl e, w) \<Rightarrow>
          (Inl e, \<lparr>world = w, trace = trace s @ [ValidateWorktreeExists gitRoot name (Inl e)]\<rparr>)
      | (Inr v, w) \<Rightarrow>
          (case spawnProcess co (shellRequest processEnv name (path v)) w of
             (r, w') \<Rightarrow>
               (r, \<lparr>world = w',
                    trace = trace s @ [ValidateWorktreeExists gitRoot name (Inr v),
                                       SpawnProcess (shellRequest processEnv name (path v)) r]\<rparr>)))"
  by (simp add: shellInWorktree_def call_defs record_call_def Let_def
      split: prod.splits sum.splits)

text \<open>
  Claim C6: for every root and name for which the validation of the worktree's existence
  fails, \<^verbatim>\<open>execInWorktree\<close> and the shell entry both return the validation's failure
  (WorktreeNotFound), and no child process is spawned: the trace gains the validation call
  and nothing else.
\<close>

theorem missing_worktree_spawns_nothing:
  assumes "validateWorktreeExists co gitRoot name (world s) = (Inl e, w)"
  shows "execInWorktree co gitRoot name cmdArray interactive s =
           (Inl e, \<lparr>world = w,
                    trace = trace s @ [ValidateWorktreeExists gitRoot name (Inl e)]\<rparr>)
       \<and> shellInWorktree co processEnv gitRoot dir name s =
           (Inl e, \<lparr>world = w,
                    trace = trace s @ [ValidateWorktreeExists gitRoot name (Inl e)]\<rparr>)
       \<and> filter isSpawnEvent (trace (snd (execInWorktree co gitRoot name cmdArray interactive s)))
           = filter isSpawnEvent (trace s)
       \<and> filter isSpawnEvent (trace (snd (shellInWorktree co processEnv gitRoot dir name s)))
           = filter isSpawnEvent (trace s)"
  using assms by (simp add: exec_unfold shell_unfold)

theorem missing_worktree_spawns_nothing_witness:
  "validateWorktreeExists simBackend ''/repo'' ''gone'' (world (simStart [] [''main'']))
     = (Inl (WorktreeNotFoundError ''gone''), world (simStart [] [''main'']))
   \<and> execInWorktree simBackend ''/repo'' ''gone'' [''ls'', ''-l''] None (simStart [] [''main''])
     = (Inl (WorktreeNotFoundError ''gone''),
        \<lparr>world = \<lparr>dirs = [], branches = [''main''], started = []\<rparr>,
         trace = [ValidateWorktreeExists ''/repo'' ''gone'' (Inl (WorktreeNotFoundError ''gone''))]\<rparr>)
   \<and> shellInWorktree simBackend [(''SHELL'', ''/bin/zsh'')] ''/repo''
        ''/repo/.git/phantom/worktrees'' ''gone'' (simStart [] [''main''])
     = (Inl (WorktreeNotFoundError ''gone''),
        \<lparr>world = \<lparr>dirs = [], branches = [''main''], started = []\<rparr>,
         trace = [ValidateWorktreeExists ''/repo'' ''gone'' (Inl (WorktreeNotFoundError ''gone''))]\<rparr>)"
  using missing_worktree_spawns_nothing [of simBackend "''/repo''" "''gone''"
    "simStart [] [''main'']" "WorktreeNotFoundError ''gone''" "world (simStart [] [''main''])"
    "[''ls'', ''-l'']" None "[(''SHELL'', ''/bin/zsh'')]" "''/repo/.git/phantom/worktrees''"]
  by (simp add: sim_defs)

text \<open>
  Claim C4: with the process backend of the specification, for every command whose child
  process starts and exits with code \<open>n\<close>, zero or not, \<^verbatim>\<open>execInWorktree\<close> returns
  \<open>ok\<close> carrying \<open>n\<close>, and the request and its answer are the last entries of the trace.
  A failure of \<^verbatim>\<open>execInWorktree\<close> is either the failure of the validation
  (WorktreeNotFound) or a ProcessSpawnError for a child that could not be started: an
  exit code never becomes a failure.
\<close>

theorem exec_reports_exit_code:
  "(validateWorktreeExists co gitRoot name (world s) = (Inr v, w1)
      \<and> runChild (execRequest (path v) cmdArray interactive) w1 = (Exited n, w2) \<longrightarrow>
    execInWorktree (withProcessBackend runChild co) gitRoot name cmdArray interactive s
      = (Inr \<lparr>exitCode = n\<rparr>,
         \<lparr>world = w2,
          trace = trace s @ [ValidateWorktreeExists gitRoot name (Inr v),
                             SpawnProcess (execRequest (path v) cmdArray interactive)
                               (Inr \<lparr>exitCode = n\<rparr>)]\<rparr>))
   \<and> (fst (execInWorktree (withProcessBackend runChild co) gitRoot name cmdArray interactive s)
         = Inl e \<longrightarrow>
        fst (validateWorktreeExists co gitRoot name (world s)) = Inl e
        \<or> (\<exists>c d v w1 w2. e = ProcessSpawnError c d
              \<and> validateWorktreeExists co gitRoot name (world s) = (Inr v, w1)
              \<and> runChild (execRequest (path v) cmdArray interactive) w1 = (CouldNotStart d, w2)))"
  by (auto simp add: exec_unfold withProcessBackend_def spawnProcessModel_def
      split: prod.splits sum.splits child_outcome.splits)

text \<open>
  On the simulated system: a program that exits with 7, a worktree that is not there, and
  an empty command, which cannot be started.
\<close>

theorem exec_reports_exit_code_witness:
  "validateWorktreeExists simBackend ''/repo'' ''dev''
       (world (simStart [''/repo/.git/phantom/worktrees/dev''] [''dev'']))
     = (Inr \<lparr>path = ''/repo/.git/phantom/worktrees/dev''\<rparr>,
        world (simStart [''/repo/.git/phantom/worktrees/dev''] [''dev'']))
   \<and> simChild (execRequest ''/repo/.git/phantom/worktrees/dev'' [''exit7''] None)
       (world (simStart [''/repo/.git/phantom/worktrees/dev''] [''dev'']))
     = (Exited 7,
        \<lparr>dirs = [''/repo/.git/phantom/worktrees/dev''], branches = [''dev''],
         started = [''exit7'']\<rparr>)
   \<and> fst (execInWorktree (withProcessBackend simChild simBackend) ''/repo'' ''dev'' [''exit7'']
            None (simStart [''/repo/.git/phantom/worktrees/dev''] [''dev'']))
     = Inr \<lparr>exitCode = 7\<rparr>
   \<and> fst (execInWorktree (withProcessBackend simChild simBackend) ''/repo'' ''gone'' [''ls'']
            None (simStart [''/repo/.git/phantom/worktrees/dev''] [''dev'']))
     = Inl (WorktreeNotFoundError ''gone'')
   \<and> fst (validateWorktreeExists simBackend ''/repo'' ''gone''
            (world (simStart [''/repo/.git/phantom/worktrees/dev''] [''dev''])))
     = Inl (WorktreeNotFoundError ''gone'')
   \<and> fst (execInWorktree (withProcessBackend simChild simBackend) ''/repo'' ''dev'' []
            None (simStart [''/repo/.git/phantom/worktrees/dev''] [''dev'']))
     = Inl (ProcessSpawnError ''undefined'' ''no program'')"
proof -
  let ?s = "simStart [''/repo/.git/phantom/worktrees/dev''] [''dev'']"
  let ?co = "withProcessBackend simChild simBackend"
  have v: "validateWorktreeExists simBackend ''/repo'' ''dev'' (world ?s)
     = (Inr \<lparr>path = ''/repo/.git/phantom/worktrees/dev''\<rparr>, world ?s)"
    by (simp add: sim_defs)
  have c: "simChild (execRequest (path \<lparr>path = ''/repo/.git/phantom/worktrees/dev''\<rparr>) [''exit7''] None)
       (world ?s)
     = (Exited 7, \<lparr>dirs = [''/repo/.git/phantom/worktrees/dev''], branches = [''dev''],
         started = [''exit7'']\<rparr>)"
    by (simp add: sim_defs simChild_def execRequest_def)
  have gone: "fst (execInWorktree ?co ''/repo'' ''gone'' [''ls''] None ?s)
      = Inl (WorktreeNotFoundError ''gone'')"
    by (simp add: exec_unfold sim_defs withProcessBackend_def)
  have nocmd: "fst (execInWorktree ?co ''/repo'' ''dev'' [] None ?s)
      = Inl (ProcessSpawnError ''undefined'' ''no program'')"
    by (simp add: exec_unfold execRequest_def sim_defs withProcessBackend_def
        spawnProcessModel_def simChild_def)
  have gv: "fst (validateWorktreeExists simBackend ''/repo'' ''gone'' (world ?s))
      = Inl (WorktreeNotFoundError ''gone'')"
    by (simp add: sim_defs)
  note t1 = exec_reports_exit_code [where co = simBackend and runChild = simChild
      and gitRoot = "''/repo''" and name = "''dev''" and s = ?s
      and v = "\<lparr>path = ''/repo/.git/phantom/worktrees/dev''\<rparr>" and ?w1.0 = "world ?s"
      and cmdArray = "[''exit7'']" and interactive = None and n = 7
      and ?w2.0 = "\<lparr>dirs = [''/repo/.git/phantom/worktrees/dev''], branches = [''dev''],
         started = [''exit7'']\<rparr>"]
  note t2 = exec_reports_exit_code [where co = simBackend and runChild = simChild
      and gitRoot = "''/repo''" and name = "''gone''" and s = ?s
      and cmdArray = "[''ls'']" and interactive = None and e = "WorktreeNotFoundError ''gone''"]
  note t3 = exec_reports_exit_code [where co = simBackend and runChild = simChild
      and gitRoot = "''/repo''" and name = "''dev''" and s = ?s
      and cmdArray = "[]" and interactive = None
      and e = "ProcessSpawnError ''undefined'' ''no program''"]
  from t1 v c have r7: "fst (execInWorktree ?co ''/repo'' ''dev'' [''exit7''] None ?s)
      = Inr \<lparr>exitCode = 7\<rparr>"
    by simp
  from v c r7 gone gv nocmd t2 t3 show ?thesis
    by simp
qed

text \<open>
  Claim C8: the request that \<^verbatim>\<open>execInWorktree\<close> hands to the process backend has,
  when the interactive flag is not set, standard input ignored and standard output and
  standard error inherited; when the flag is set, all three streams are inherited.
\<close>

theorem exec_stdio_selection:
  assumes "validateWorktreeExists co gitRoot name (world s) = (Inr v, w1)"
  shows "\<exists>cfg r. trace (snd (execInWorktree co gitRoot name cmdArray interactive s))
                  = trace s @ [ValidateWorktreeExists gitRoot name (Inr v), SpawnProcess cfg r]
           \<and> (interactive \<noteq> Some True \<longrightarrow>
                streamMode cfg 0 = Some Ignore \<and> streamMode cfg 1 = Some Inherit
                \<and> streamMode cfg 2 = Some Inherit)
           \<and> (interactive = Some True \<longrightarrow>
                streamMode cfg 0 = Some Inherit \<and> streamMode cfg 1 = Some Inherit
                \<and> streamMode cfg 2 = Some Inherit)"
  using assms
  by (auto simp add: exec_unfold execRequest_def streamMode_def split: prod.splits)

theorem exec_stdio_selection_witness:
  "validateWorktreeExists simBackend ''/repo'' ''dev''
       (world (simStart [''/repo/.git/phantom/worktrees/dev''] [''dev'']))
     = (Inr \<lparr>path = ''/repo/.git/phantom/worktrees/dev''\<rparr>,
        world (simStart [''/repo/.git/phantom/worktrees/dev''] [''dev'']))
   \<and> (\<exists>cfg r. trace (snd (execInWorktree simBackend ''/repo'' ''dev'' [''make'', ''test''] None
                            (simStart [''/repo/.git/phantom/worktrees/dev''] [''dev''])))
                = [ValidateWorktreeExists ''/repo'' ''dev''
                     (Inr \<lparr>path = ''/repo/.git/phantom/worktrees/dev''\<rparr>),
                   SpawnProcess cfg r]
         \<and> streamMode cfg 0 = Some Ignore \<and> streamMode cfg 1 = Some Inherit
         \<and> streamMode cfg 2 = Some Inherit)
   \<and> (\<exists>cfg r. trace (snd (execInWorktree simBackend ''/repo'' ''dev'' [''vim''] (Some True)
                            (simStart [''/repo/.git/phantom/worktrees/dev''] [''dev''])))
                = [ValidateWorktreeExists ''/repo'' ''dev''
                     (Inr \<lparr>path = ''/repo/.git/phantom/worktrees/dev''\<rparr>),
                   SpawnProcess cfg r]
         \<and> streamMode cfg 0 = Some Inherit \<and> streamMode cfg 1 = Some Inherit
         \<and> streamMode cfg 2 = Some Inherit)"
  using
    exec_stdio_selection [of simBackend "''/repo''" "''dev''"
      "simStart [''/repo/.git/phantom/worktrees/dev''] [''dev'']"
      "\<lparr>path = ''/repo/.git/phantom/worktrees/dev''\<rparr>"
      "world (simStart [''/repo/.git/phantom/worktrees/dev''] [''dev''])"
      "[''make'', ''test'']" None]
    exec_stdio_selection [of simBackend "''/repo''" "''dev''"
      "simStart [''/repo/.git/phantom/worktrees/dev''] [''dev'']"
      "\<lparr>path = ''/repo/.git/phantom/worktrees/dev''\<rparr>"
      "world (simStart [''/repo/.git/phantom/worktrees/dev''] [''dev''])"
      "[''vim'']" "Some True"]
  by (simp add: sim_defs)

text \<open>
  Claim C2 asks for the marker, the worktree's name and its path in the environment of
  every spawned process, on the shell path and on the exec path. The request of
  \<^verbatim>\<open>execInWorktree\<close> has a working directory and a stream setting, and no
  environment at all.
\<close>

theorem exec_environment_counterexample:
  "execInWorktree simBackend ''/repo'' ''dev'' [''exit7''] None
       (simStart [''/repo/.git/phantom/worktrees/dev''] [''dev''])
     = (Inr \<lparr>exitCode = 7\<rparr>,
        \<lparr>world = \<lparr>dirs = [''/repo/.git/phantom/worktrees/dev''], branches = [''dev''],
                  started = [''exit7'']\<rparr>,
         trace = [ValidateWorktreeExists ''/repo'' ''dev''
                    (Inr \<lparr>path = ''/repo/.git/phantom/worktrees/dev''\<rparr>),
                  SpawnProcess
                    \<lparr>command = Some ''exit7'', args = [],
                     options = \<lparr>cwd = ''/repo/.git/phantom/worktrees/dev'',
                                stdio = Some (StdioArray [Ignore, Inherit, Inherit]),
                                env = None\<rparr>\<rparr>
                    (Inr \<lparr>exitCode = 7\<rparr>)]\<rparr>)
   \<and> \<not> hasPhantomEnv ''dev'' ''/repo/.git/phantom/worktrees/dev''
         \<lparr>command = Some ''exit7'', args = [],
          options = \<lparr>cwd = ''/repo/.git/phantom/worktrees/dev'',
                     stdio = Some (StdioArray [Ignore, Inherit, Inherit]),
                     env = None\<rparr>\<rparr>"
  by (simp add: exec_unfold execRequest_def hasPhantomEnv_def sim_defs)

text \<open>
  Claim C2, amended: on the shell path the environment handed to the process backend holds
  the marker, the worktree's name and the resolved worktree path, and every other variable
  as the caller has it; on the exec path the request carries the worktree path as working
  directory and a stdio setting (stdin ignored and the outputs inherited, or all inherited
  when interactive), and no environment.
\<close>

theorem spawn_environment:
  assumes "validateWorktreeExists co gitRoot name (world s) = (Inr v, w1)"
  shows "(\<exists>cfg r e. trace (snd (shellInWorktree co processEnv gitRoot dir name s))
                  = trace s @ [ValidateWorktreeExists gitRoot name (Inr v), SpawnProcess cfg r]
           \<and> hasPhantomEnv name (path v) cfg
           \<and> env (options cfg) = Some e
           \<and> (\<forall>k. k \<notin> {''PHANTOM'', ''PHANTOM_NAME'', ''PHANTOM_PATH''} \<longrightarrow>
                  map_of e k = map_of processEnv k))
       \<and> (\<exists>cfg r. trace (snd (execInWorktree co gitRoot name cmdArray interactive s))
                  = trace s @ [ValidateWorktreeExists gitRoot name (Inr v), SpawnProcess cfg r]
           \<and> cwd (options cfg) = path v
           \<and> stdio (options cfg)
               = Some (if interactive = Some True then StdioAll Inherit
                       else StdioArray [Ignore, Inherit, Inherit])
           \<and> env (options cfg) = None)"
  using assms
  by (auto simp add: exec_unfold shell_unfold execRequest_def shellRequest_def hasPhantomEnv_def
      getPhantomEnv_def AList.merge_conv' map_add_def AList.update_conv' split: prod.splits)

theorem spawn_environment_witness:
  "validateWorktreeExists simBackend ''/repo'' ''dev''
       (world (simStart [''/repo/.git/phantom/worktrees/dev''] [''dev'']))
     = (Inr \<lparr>path = ''/repo/.git/phantom/worktrees/dev''\<rparr>,
        world (simStart [''/repo/.git/phantom/worktrees/dev''] [''dev'']))
   \<and> (\<exists>cfg r e. trace (snd (shellInWorktree simBackend [(''HOME'', ''/home/u''), (''PHANTOM'', ''0'')]
                  ''/repo'' ''/repo/.git/phantom/worktrees'' ''dev''
                  (simStart [''/repo/.git/phantom/worktrees/dev''] [''dev''])))
                = [ValidateWorktreeExists ''/repo'' ''dev''
                     (Inr \<lparr>path = ''/repo/.git/phantom/worktrees/dev''\<rparr>),
                   SpawnProcess cfg r]
         \<and> env (options cfg) = Some e
         \<and> map_of e ''PHANTOM'' = Some ''1''
         \<and> map_of e ''PHANTOM_NAME'' = Some ''dev''
         \<and> map_of e ''PHANTOM_PATH'' = Some ''/repo/.git/phantom/worktrees/dev''
         \<and> map_of e ''HOME'' = Some ''/home/u'')
   \<and> (\<exists>cfg r. trace (snd (execInWorktree simBackend ''/repo'' ''dev'' [''ls''] None
                  (simStart [''/repo/.git/phantom/worktrees/dev''] [''dev''])))
                = [ValidateWorktreeExists ''/repo'' ''dev''
                     (Inr \<lparr>path = ''/repo/.git/phantom/worktrees/dev''\<rparr>),
                   SpawnProcess cfg r]
         \<and> cwd (options cfg) = ''/repo/.git/phantom/worktrees/dev''
         \<and> stdio (options cfg) = Some (StdioArray [Ignore, Inherit, Inherit])
         \<and> env (options cfg) = None)"
proof -
  let ?s = "simStart [''/repo/.git/phantom/worktrees/dev''] [''dev'']"
  let ?pe = "[(''HOME'', ''/home/u''), (''PHANTOM'', ''0'')]"
  have v: "validateWorktreeExists simBackend ''/repo'' ''dev'' (world ?s)
     = (Inr \<lparr>path = ''/repo/.git/phantom/worktrees/dev''\<rparr>, world ?s)"
    by (simp add: sim_defs)
  have t: "trace ?s = []"
    by (simp add: simStart_def)
  from spawn_environment [OF v, of ?pe "''/repo/.git/phantom/worktrees''" "[''ls'']" None]
  obtain cfg r e cfg' r' where
    a: "trace (snd (shellInWorktree simBackend ?pe ''/repo'' ''/repo/.git/phantom/worktrees''
           ''dev'' ?s))
        = trace ?s @ [ValidateWorktreeExists ''/repo'' ''dev''
                     (Inr \<lparr>path = ''/repo/.git/phantom/worktrees/dev''\<rparr>), SpawnProcess cfg r]"
    and b: "hasPhantomEnv ''dev'' ''/repo/.git/phantom/worktrees/dev'' cfg"
    and c: "env (options cfg) = Some e"
    and d: "\<forall>k. k \<notin> {''PHANTOM'', ''PHANTOM_NAME'', ''PHANTOM_PATH''} \<longrightarrow>
                  map_of e k = map_of ?pe k"
    and a': "trace (snd (execInWorktree simBackend ''/repo'' ''dev'' [''ls''] None ?s))
        = trace ?s @ [ValidateWorktreeExists ''/repo'' ''dev''
                     (Inr \<lparr>path = ''/repo/.git/phantom/worktrees/dev''\<rparr>), SpawnProcess cfg' r']"
    and c': "cwd (options cfg') = path \<lparr>path = ''/repo/.git/phantom/worktrees/dev''\<rparr>"
    and d': "stdio (options cfg')
        = Some (if (None :: bool option) = Some True then StdioAll Inherit
                else StdioArray [Ignore, Inherit, Inherit])"
    and e': "env (options cfg') = None"
    by auto
  have home: "map_of e ''HOME'' = Some ''/home/u''"
    using d [rule_format, of "''HOME''"] by simp
  have marks: "map_of e ''PHANTOM'' = Some ''1'' \<and> map_of e ''PHANTOM_NAME'' = Some ''dev''
      \<and> map_of e ''PHANTOM_PATH'' = Some ''/repo/.git/phantom/worktrees/dev''"
    using b c by (simp add: hasPhantomEnv_def)
  from a t have a2: "trace (snd (shellInWorktree simBackend ?pe ''/repo''
        ''/repo/.git/phantom/worktrees'' ''dev'' ?s))
        = [ValidateWorktreeExists ''/repo'' ''dev''
             (Inr \<lparr>path = ''/repo/.git/phantom/worktrees/dev''\<rparr>), SpawnProcess cfg r]"
    by simp
  from a' t have a3: "trace (snd (execInWorktree simBackend ''/repo'' ''dev'' [''ls''] None ?s))
        = [ValidateWorktreeExists ''/repo'' ''dev''
             (Inr \<lparr>path = ''/repo/.git/phantom/worktrees/dev''\<rparr>), SpawnProcess cfg' r']"
    by simp
  from c' d' have cd: "cwd (options cfg') = ''/repo/.git/phantom/worktrees/dev''"
      "stdio (options cfg') = Some (StdioArray [Ignore, Inherit, Inherit])"
    by simp_all
  show ?thesis
    using v a2 c marks home a3 cd e' by blast
qed

section \<open>Post-delete commands\<close>

lemma loop_append:
  "runPostDeleteCommands co ec pe g (xs @ ys) s =
     (case runPostDeleteCommands co ec pe g xs s of
        (None, s1) \<Rightarrow> runPostDeleteCommands co ec pe g ys s1
      | (Some x, s1) \<Rightarrow> (Some x, s1))"
proof (induction xs arbitrary: s)
  case Nil
  show ?case by simp
next
  case (Cons x xs)
  show ?case
    by (simp add: Cons.IH Let_def split: prod.splits sum.splits)
qed

text \<open>
  The loop against the answers of the collaborators: as long as every command answers with
  exit code zero, the loop goes on to the next one.
\<close>

lemma length_hookResults: "length (hookResults co pe g cmds w) = length cmds"
  by (induction cmds arbitrary: w) (auto split: prod.splits sum.splits)

lemma hook_exec:
  assumes "validateWorktreeExists co g ''.'' (world s) = (Inr v, w1)"
  shows "execInWorktree co g ''.'' [userShell pe, ''-c'', c] None (emit ev s) =
     (fst (spawnProcess co
             \<lparr>command = Some (userShell pe), args = [''-c'', c],
              options = \<lparr>cwd = path v, stdio = Some (StdioArray [Ignore, Inherit, Inherit]),
                         env = None\<rparr>\<rparr> w1),
      \<lparr>world = snd (spawnProcess co
             \<lparr>command = Some (userShell pe), args = [''-c'', c],
              options = \<lparr>cwd = path v, stdio = Some (StdioArray [Ignore, Inherit, Inherit]),
                         env = None\<rparr>\<rparr> w1),
       trace = trace s @ [ev, ValidateWorktreeExists g ''.'' (Inr v),
                 SpawnProcess \<lparr>command = Some (userShell pe), args = [''-c'', c],
                    options = \<lparr>cwd = path v,
                               stdio = Some (StdioArray [Ignore, Inherit, Inherit]),
                               env = None\<rparr>\<rparr>
                   (fst (spawnProcess co
                      \<lparr>command = Some (userShell pe), args = [''-c'', c],
                       options = \<lparr>cwd = path v,
                                  stdio = Some (StdioArray [Ignore, Inherit, Inherit]),
                                  env = None\<rparr>\<rparr> w1))]\<rparr>)"
  using assms
  by (simp add: exec_unfold execRequest_def emit_def split: prod.splits)

lemma loop_all_zero:
  "list_all okZero (hookResults co pe g cmds (world s)) \<Longrightarrow>
     \<exists>s'. runPostDeleteCommands co ec pe g cmds s = (None, s')
       \<and> scriptsRun (trace s') = scriptsRun (trace s) @ cmds
       \<and> length (filter isSpawnEvent (trace s'))
           = length (filter isSpawnEvent (trace s)) + length cmds
       \<and> (\<forall>more. hookResults co pe g (cmds @ more) (world s)
             = hookResults co pe g cmds (world s) @ hookResults co pe g more (world s'))"
proof (induction cmds arbitrary: s)
  case Nil
  then show ?case by simp
next
  case (Cons c cs)
  let ?ev = "OutputLog (''Executing: '' @ c)"
  obtain vr w1 where val: "validateWorktreeExists co g ''.'' (world s) = (vr, w1)"
    by (cases "validateWorktreeExists co g ''.'' (world s)")
  from Cons.prems val obtain v where vr: "vr = Inr v"
    by (cases vr) (auto simp add: okZero_def)
  let ?req = "\<lparr>command = Some (userShell pe), args = [''-c'', c],
              options = \<lparr>cwd = path v, stdio = Some (StdioArray [Ignore, Inherit, Inherit]),
                         env = None\<rparr>\<rparr>"
  obtain r w2 where sp: "spawnProcess co ?req w1 = (r, w2)"
    by (cases "spawnProcess co ?req w1")
  from Cons.prems val vr sp have r0: "okZero r"
    and rest: "list_all okZero (hookResults co pe g cs w2)"
    by simp_all
  from r0 obtain sv where r: "r = Inr sv" and z: "exitCode sv = 0"
    by (cases r) (auto simp add: okZero_def)
  let ?s2 = "\<lparr>world = w2, trace = trace s @ [?ev, ValidateWorktreeExists g ''.'' (Inr v),
      SpawnProcess ?req r]\<rparr>"
  have ex: "execInWorktree co g ''.'' [userShell pe, ''-c'', c] None (emit ?ev s) = (r, ?s2)"
    using hook_exec [of co g s v w1 pe c ?ev] val vr sp by simp
  have step: "runPostDeleteCommands co ec pe g (c # cs) s
      = runPostDeleteCommands co ec pe g cs ?s2"
    using ex r z by (simp add: Let_def)
  from rest have "list_all okZero (hookResults co pe g cs (world ?s2))"
    by simp
  from Cons.IH [OF this] obtain s' where
    run: "runPostDeleteCommands co ec pe g cs ?s2 = (None, s')"
    and scr: "scriptsRun (trace s') = scriptsRun (trace ?s2) @ cs"
    and cnt: "length (filter isSpawnEvent (trace s'))
           = length (filter isSpawnEvent (trace ?s2)) + length cs"
    and app: "\<forall>more. hookResults co pe g (cs @ more) (world ?s2)
             = hookResults co pe g cs (world ?s2) @ hookResults co pe g more (world s')"
    by blast
  have "runPostDeleteCommands co ec pe g (c # cs) s = (None, s')"
    using step run by simp
  moreover have "scriptsRun (trace s') = scriptsRun (trace s) @ c # cs"
    using scr by (simp add: scriptsRun_def)
  moreover have "length (filter isSpawnEvent (trace s'))
           = length (filter isSpawnEvent (trace s)) + length (c # cs)"
    using cnt by simp
  moreover have "\<forall>more. hookResults co pe g ((c # cs) @ more) (world s)
             = hookResults co pe g (c # cs) (world s) @ hookResults co pe g more (world s')"
    using app val vr sp by simp
  ultimately show ?case by blast
qed

text \<open>
  Claim C5: the post-delete commands are run strictly in the declared order, and the first
  one that returns a nonzero exit code ends the sequence. When every command of the
  sequence returns zero, the run reaches the end and has handed exactly the declared
  commands, in order, to the process backend. When the commands \<open>pre\<close> return zero and
  the next command \<open>c\<close> returns a nonzero code, the run of \<open>pre @ c # post\<close> fails with
  the text of \<open>c\<close> and its exit code, and the commands handed to the process backend are
  \<open>pre\<close> and \<open>c\<close>, in order, and no more: nothing of \<open>post\<close> is run.
\<close>

theorem post_delete_commands_abort:
  "(list_all okZero (hookResults co pe g cmds (world s)) \<longrightarrow>
      fst (runPostDeleteCommands co ec pe g cmds s) = None
      \<and> scriptsRun (trace (snd (runPostDeleteCommands co ec pe g cmds s)))
          = scriptsRun (trace s) @ cmds)
   \<and> (list_all okZero (hookResults co pe g pre (world s))
        \<and> hookResults co pe g (pre @ [c]) (world s) ! length pre = Inr v
        \<and> exitCode v \<noteq> 0 \<longrightarrow>
      fst (runPostDeleteCommands co ec pe g (pre @ c # post) s)
        = Some (ExitWithError (''Post-delete command failed: '' @ c) (exitCode v))
      \<and> scriptsRun (trace (snd (runPostDeleteCommands co ec pe g (pre @ c # post) s)))
          = scriptsRun (trace s) @ pre @ [c]
      \<and> length (filter isSpawnEvent
                  (trace (snd (runPostDeleteCommands co ec pe g (pre @ c # post) s))))
          = length (filter isSpawnEvent (trace s)) + length pre + 1)"
proof (intro conjI impI)
  assume "list_all okZero (hookResults co pe g cmds (world s))"
  from loop_all_zero [OF this, of ec]
  show "fst (runPostDeleteCommands co ec pe g cmds s) = None"
    and "scriptsRun (trace (snd (runPostDeleteCommands co ec pe g cmds s)))
          = scriptsRun (trace s) @ cmds"
    by auto
next
  assume h: "list_all okZero (hookResults co pe g pre (world s))
        \<and> hookResults co pe g (pre @ [c]) (world s) ! length pre = Inr v
        \<and> exitCode v \<noteq> 0"
  let ?ev = "OutputLog (''Executing: '' @ c)"
  from h loop_all_zero [of co pe g pre s ec] obtain s1 where
    run: "runPostDeleteCommands co ec pe g pre s = (None, s1)"
    and scr: "scriptsRun (trace s1) = scriptsRun (trace s) @ pre"
    and cnt: "length (filter isSpawnEvent (trace s1))
           = length (filter isSpawnEvent (trace s)) + length pre"
    and app: "\<forall>more. hookResults co pe g (pre @ more) (world s)
             = hookResults co pe g pre (world s) @ hookResults co pe g more (world s1)"
    by blast
  from h app have one: "hookResults co pe g [c] (world s1) ! 0 = Inr v"
    by (simp add: nth_append length_hookResults)
  obtain vr w1 where val: "validateWorktreeExists co g ''.'' (world s1) = (vr, w1)"
    by (cases "validateWorktreeExists co g ''.'' (world s1)")
  from one val obtain wv where vr: "vr = Inr wv"
    and spv: "fst (spawnProcess co
             \<lparr>command = Some (userShell pe), args = [''-c'', c],
              options = \<lparr>cwd = path wv, stdio = Some (StdioArray [Ignore, Inherit, Inherit]),
                         env = None\<rparr>\<rparr> w1) = Inr v"
    by (cases vr) (auto split: prod.splits)
  let ?req = "\<lparr>command = Some (userShell pe), args = [''-c'', c],
              options = \<lparr>cwd = path wv, stdio = Some (StdioArray [Ignore, Inherit, Inherit]),
                         env = None\<rparr>\<rparr>"
  let ?s2 = "\<lparr>world = snd (spawnProcess co ?req w1),
      trace = trace s1 @ [?ev, ValidateWorktreeExists g ''.'' (Inr wv),
                SpawnProcess ?req (Inr v)]\<rparr>"
  have ex: "execInWorktree co g ''.'' [userShell pe, ''-c'', c] None (emit ?ev s1) = (Inr v, ?s2)"
    using hook_exec [of co g s1 wv w1 pe c ?ev] val vr spv by simp
  have full: "runPostDeleteCommands co ec pe g (pre @ c # post) s
      = (Some (ExitWithError (''Post-delete command failed: '' @ c) (exitCode v)), ?s2)"
    using run ex h by (simp add: loop_append Let_def)
  show "fst (runPostDeleteCommands co ec pe g (pre @ c # post) s)
        = Some (ExitWithError (''Post-delete command failed: '' @ c) (exitCode v))"
    using full by simp
  show "scriptsRun (trace (snd (runPostDeleteCommands co ec pe g (pre @ c # post) s)))
          = scriptsRun (trace s) @ pre @ [c]"
    using full scr by (simp add: scriptsRun_def)
  show "length (filter isSpawnEvent
                  (trace (snd (runPostDeleteCommands co ec pe g (pre @ c # post) s))))
          = length (filter isSpawnEvent (trace s)) + length pre + 1"
    using full cnt by simp
qed

text \<open>The commands \<^verbatim>\<open>true\<close>, \<^verbatim>\<open>false\<close>, \<^verbatim>\<open>true\<close> on the simulated backend.\<close>

lemmas sim_run = runPostDeleteCommands.simps Let_def exec_unfold execRequest_def emit_def
  userShell_def sim_defs scriptsRun_def

theorem post_delete_commands_abort_witness:
  "list_all okZero (hookResults simBackend [] ''/repo'' [''true'', ''true'']
      (world (simStart [''/repo/.git/phantom/worktrees/.''] [])))
   \<and> hookResults simBackend [] ''/repo'' ([''true''] @ [''false''])
        (world (simStart [''/repo/.git/phantom/worktrees/.''] [])) ! length [''true'']
       = Inr \<lparr>exitCode = 1\<rparr>
   \<and> fst (runPostDeleteCommands simBackend simExitCodes [] ''/repo'' [''true'', ''true'']
          (simStart [''/repo/.git/phantom/worktrees/.''] [])) = None
   \<and> scriptsRun (trace (snd (runPostDeleteCommands simBackend simExitCodes [] ''/repo''
          [''true'', ''true''] (simStart [''/repo/.git/phantom/worktrees/.''] []))))
       = [''true'', ''true'']
   \<and> fst (runPostDeleteCommands simBackend simExitCodes [] ''/repo'' [''true'', ''false'', ''true'']
          (simStart [''/repo/.git/phantom/worktrees/.''] []))
       = Some (ExitWithError ''Post-delete command failed: false'' 1)
   \<and> scriptsRun (trace (snd (runPostDeleteCommands simBackend simExitCodes [] ''/repo''
          [''true'', ''false'', ''true''] (simStart [''/repo/.git/phantom/worktrees/.''] []))))
       = [''true'', ''false'']
   \<and> length (filter isSpawnEvent (trace (snd (runPostDeleteCommands simBackend simExitCodes []
          ''/repo'' [''true'', ''false'', ''true'']
          (simStart [''/repo/.git/phantom/worktrees/.''] []))))) = 2"
proof -
  let ?s = "simStart [''/repo/.git/phantom/worktrees/.''] []"
  have h1: "list_all okZero (hookResults simBackend [] ''/repo'' [''true'', ''true''] (world ?s))"
    by (simp add: sim_defs okZero_def userShell_def)
  have h2: "list_all okZero (hookResults simBackend [] ''/repo'' [''true''] (world ?s))"
    by (simp add: sim_defs okZero_def userShell_def)
  have h3: "hookResults simBackend [] ''/repo'' ([''true''] @ [''false'']) (world ?s)
      ! length [''true''] = Inr \<lparr>exitCode = 1\<rparr>"
    by (simp add: sim_defs userShell_def)
  have t: "trace ?s = []"
    by (simp add: simStart_def)
  note a = post_delete_commands_abort [where co = simBackend and ec = simExitCodes
      and pe = "[]" and g = "''/repo''" and cmds = "[''true'', ''true'']" and s = ?s
      and pre = "[''true'']" and c = "''false''" and v = "\<lparr>exitCode = 1\<rparr>"
      and post = "[''true'']"]
  from a h1 h2 h3 t show ?thesis
    by (simp add: scriptsRun_def)
qed

section \<open>Validation of the configuration\<close>

text \<open>What \<^verbatim>\<open>validateConfig\<close> does check: the value itself and its \<^verbatim>\<open>postCreate\<close>.\<close>

lemma validateConfig_checks_postCreate:
  "validateConfig config = Inr c \<Longrightarrow>
     c = config \<and> isObject config \<and> postCreateShape (getProp config ''postCreate'')"
  by (auto simp add: validateConfig_def postCreateShape_def stringArrayOrAbsent_def Let_def
      split: if_splits)

text \<open>
  Claim C9 says that \<^verbatim>\<open>validateConfig\<close> returns \<open>ok\<close> only for a value whose present
  sections match the schema, a present \<^verbatim>\<open>postDelete\<close> included. The code never looks
  at \<^verbatim>\<open>postDelete\<close>: a configuration whose \<^verbatim>\<open>postDelete.commands\<close> is a string is
  accepted, while the same mistake under \<^verbatim>\<open>postCreate\<close> is rejected.
\<close>

theorem validateConfig_accepts_malformed_postDelete:
  "validateConfig (JObject [(''postDelete'', JObject [(''commands'', JString ''rm -rf build'')])])
     = Inr (JObject [(''postDelete'', JObject [(''commands'', JString ''rm -rf build'')])])
   \<and> \<not> matchesSchema
         (JObject [(''postDelete'', JObject [(''commands'', JString ''rm -rf build'')])])
   \<and> validateConfig (JObject [(''postCreate'', JObject [(''commands'', JString ''rm -rf build'')])])
     = Inl (ConfigValidationError ''postCreate.commands must be an array'')"
  by (simp add: validateConfig_def matchesSchema_def postDeleteShape_def postCreateShape_def
      stringArrayOrAbsent_def)

section \<open>The delete handler and the configuration\<close>

text \<open>
  What each part of the handler adds to the trace: never a call of the loader, never a
  warning, and a failed call only together with an error exit.
\<close>

lemma loop_events:
  "runPostDeleteCommands co ec pe g cmds s = (x, s') \<Longrightarrow>
     \<exists>t. trace s' = trace s @ t
       \<and> (\<forall>e\<in>set t. (\<forall>g r. e \<noteq> LoadConfig g r) \<and> \<not> isWarning e)
       \<and> (x = None \<longrightarrow> (\<forall>e\<in>set t. \<not> failedCall e))
       \<and> (\<forall>ex. x = Some ex \<longrightarrow> (\<exists>m c. ex = ExitWithError m c))"
proof (induction cmds arbitrary: s)
  case Nil
  then show ?case by simp
next
  case (Cons c cs)
  let ?s1 = "emit (OutputLog (''Executing: '' @ c)) s"
  obtain r s2 where ex: "execInWorktree co g ''.'' [userShell pe, ''-c'', c] None ?s1 = (r, s2)"
    by (cases "execInWorktree co g ''.'' [userShell pe, ''-c'', c] None ?s1")
  show ?case
  proof (cases r)
    case (Inl e)
    with ex Cons.prems show ?thesis
      by (auto simp add: Let_def exec_unfold emit_def split: prod.splits sum.splits)
  next
    case (Inr v)
    show ?thesis
    proof (cases "exitCode v = 0")
      case False
      with Inr ex Cons.prems show ?thesis
        by (auto simp add: Let_def exec_unfold emit_def split: prod.splits sum.splits)
    next
      case True
      with Inr ex Cons.prems have rest: "runPostDeleteCommands co ec pe g cs s2 = (x, s')"
        by (simp add: Let_def)
      from Cons.IH [OF rest] obtain t where
        t: "trace s' = trace s2 @ t"
        and t1: "\<forall>e\<in>set t. (\<forall>g r. e \<noteq> LoadConfig g r) \<and> \<not> isWarning e"
        and t2: "x = None \<longrightarrow> (\<forall>e\<in>set t. \<not> failedCall e)"
        and t3: "\<forall>ex. x = Some ex \<longrightarrow> (\<exists>m c. ex = ExitWithError m c)"
        by blast
      from ex Inr obtain u where
        u: "trace s2 = trace s @ u"
        and u1: "\<forall>e\<in>set u. (\<forall>g r. e \<noteq> LoadConfig g r) \<and> \<not> isWarning e \<and> \<not> failedCall e"
        by (auto simp add: exec_unfold emit_def split: prod.splits sum.splits)
      have "trace s' = trace s @ (u @ t)"
        using t u by simp
      moreover have "\<forall>e\<in>set (u @ t). (\<forall>g r. e \<noteq> LoadConfig g r) \<and> \<not> isWarning e"
        using t1 u1 by auto
      moreover have "x = None \<longrightarrow> (\<forall>e\<in>set (u @ t). \<not> failedCall e)"
        using t2 u1 by auto
      ultimately show ?thesis
        using t3 by blast
    qed
  qed
qed

lemma resolve_events:
  "resolveWorktreeName co ec a g s = (r, s') \<Longrightarrow>
     \<exists>t. trace s' = trace s @ t
       \<and> (\<forall>e\<in>set t. (\<forall>g r. e \<noteq> LoadConfig g r) \<and> \<not> isWarning e
             \<and> (failedCall e \<longrightarrow> (\<exists>m c. r = Inl (ExitWithError m c))))"
  by (auto simp add: resolveWorktreeName_def call_defs record_call_def Let_def
      split: prod.splits sum.splits option.splits if_splits)

lemma tail_events:
  assumes "deleteAndRunCommands co ec pe a f g cr s = (x, s')"
  shows "\<exists>t. trace s' = trace s @ t
       \<and> (\<forall>e\<in>set t. (\<forall>g r. e \<noteq> LoadConfig g r) \<and> \<not> isWarning e
             \<and> (failedCall e \<longrightarrow> (\<exists>m c. x = ExitWithError m c)))"
proof -
  obtain r s4 where res: "resolveWorktreeName co ec a g s = (r, s4)"
    by (cases "resolveWorktreeName co ec a g s")
  from resolve_events [OF res] obtain t1 where
    t1: "trace s4 = trace s @ t1"
    and e1: "\<forall>e\<in>set t1. (\<forall>g r. e \<noteq> LoadConfig g r) \<and> \<not> isWarning e
             \<and> (failedCall e \<longrightarrow> (\<exists>m c. r = Inl (ExitWithError m c)))"
    by blast
  show ?thesis
  proof (cases r)
    case (Inl ex)
    with assms res have "x = ex" "s' = s4"
      by (simp_all add: deleteAndRunCommands_def)
    with t1 e1 Inl show ?thesis by auto
  next
    case (Inr n)
    with e1 have ok1: "\<forall>e\<in>set t1. (\<forall>g r. e \<noteq> LoadConfig g r) \<and> \<not> isWarning e \<and> \<not> failedCall e"
      by auto
    obtain d s5 where del: "callDeleteWorktree co g n f s4 = (d, s5)"
      by (cases "callDeleteWorktree co g n f s4")
    then have t5: "trace s5 = trace s4 @ [DeleteWorktree g n f d]"
      by (auto simp add: call_defs record_call_def split: prod.splits)
    show ?thesis
    proof (cases d)
      case (Inl e)
      with assms res Inr del have "x = ExitWithError (message e) (deleteExitCode ec e)" "s' = s5"
        by (simp_all add: deleteAndRunCommands_def)
      with t1 t5 ok1 show ?thesis by auto
    next
      case (Inr v)
      note dv = this
      let ?s6 = "emit (OutputLog (deleteMessage v)) s5"
      have t6: "trace ?s6 = trace s @ (t1 @ [DeleteWorktree g n f (Inr v), OutputLog (deleteMessage v)])"
        using t1 t5 dv by (simp add: emit_def)
      have ok6: "\<forall>e\<in>set (t1 @ [DeleteWorktree g n f (Inr v), OutputLog (deleteMessage v)]).
          (\<forall>g r. e \<noteq> LoadConfig g r) \<and> \<not> isWarning e \<and> \<not> failedCall e"
        using ok1 by auto
      show ?thesis
      proof (cases "postDeleteCommandsOf cr")
        case None
        with assms res \<open>r = Inr n\<close> del dv have "x = ExitWithSuccess" "s' = ?s6"
          by (simp_all add: deleteAndRunCommands_def Let_def)
        with t6 ok6 show ?thesis by blast
      next
        case (Some cmds)
        let ?s7 = "emit (OutputLog (CHR 0x0A # ''Running post-delete commands...'')) ?s6"
        obtain y s8 where lp: "runPostDeleteCommands co ec pe g cmds ?s7 = (y, s8)"
          by (cases "runPostDeleteCommands co ec pe g cmds ?s7")
        from loop_events [OF lp] obtain t where
          t: "trace s8 = trace ?s7 @ t"
          and l1: "\<forall>e\<in>set t. (\<forall>g r. e \<noteq> LoadConfig g r) \<and> \<not> isWarning e"
          and l2: "y = None \<longrightarrow> (\<forall>e\<in>set t. \<not> failedCall e)"
          and l3: "\<forall>ex. y = Some ex \<longrightarrow> (\<exists>m c. ex = ExitWithError m c)"
          by blast
        from assms res \<open>r = Inr n\<close> del dv Some lp
        have xs: "x = (case y of Some ex \<Rightarrow> ex | None \<Rightarrow> ExitWithSuccess)" "s' = s8"
          by (simp_all add: deleteAndRunCommands_def Let_def split: option.splits)
        let ?t = "t1 @ [DeleteWorktree g n f (Inr v), OutputLog (deleteMessage v),
           OutputLog (CHR 0x0A # ''Running post-delete commands...'')] @ t"
        have "trace s' = trace s @ ?t"
          using xs t t6 by (simp add: emit_def)
        moreover have "\<forall>e\<in>set ?t. (\<forall>g r. e \<noteq> LoadConfig g r) \<and> \<not> isWarning e
             \<and> (failedCall e \<longrightarrow> (\<exists>m c. x = ExitWithError m c))"
        proof (cases y)
          case None
          with l1 l2 ok1 show ?thesis by auto
        next
          case (Some ex)
          with l3 xs obtain m c where "x = ExitWithError m c" by auto
          with l1 ok1 show ?thesis by auto
        qed
        ultimately show ?thesis by blast
      qed
    qed
  qed
qed

text \<open>
  The handler after the loader does not depend on what the trace holds, on the loader, or
  on more of the configuration than its post-delete commands.
\<close>

lemma resolve_shift:
  "resolveWorktreeName co ec a g \<lparr>world = w, trace = t\<rparr> =
     (case resolveWorktreeName co ec a g \<lparr>world = w, trace = []\<rparr> of
        (r, s1) \<Rightarrow> (r, \<lparr>world = world s1, trace = t @ trace s1\<rparr>))"
  by (simp add: resolveWorktreeName_def call_defs record_call_def Let_def
      split: prod.splits sum.splits option.splits)

lemma tail_shift:
  assumes "postDeleteCommandsOf cr = None"
  shows "deleteAndRunCommands co ec pe a f g cr \<lparr>world = w, trace = t\<rparr> =
     (case deleteAndRunCommands co ec pe a f g cr \<lparr>world = w, trace = []\<rparr> of
        (x, s1) \<Rightarrow> (x, \<lparr>world = world s1, trace = t @ trace s1\<rparr>))"
proof -
  obtain r s1 where r0: "resolveWorktreeName co ec a g \<lparr>world = w, trace = []\<rparr> = (r, s1)"
    by (cases "resolveWorktreeName co ec a g \<lparr>world = w, trace = []\<rparr>")
  then have r1: "resolveWorktreeName co ec a g \<lparr>world = w, trace = t\<rparr>
      = (r, \<lparr>world = world s1, trace = t @ trace s1\<rparr>)"
    by (simp add: resolve_shift [of co ec a g w t])
  have s1: "s1 = \<lparr>world = world s1, trace = trace s1\<rparr>"
    by simp
  show ?thesis
    using assms r0 r1
    by (simp add: deleteAndRunCommands_def call_defs record_call_def emit_def Let_def
        split: prod.splits sum.splits)
qed

lemma tail_config_irrelevant:
  "postDeleteCommandsOf cr = postDeleteCommandsOf cr' \<Longrightarrow>
     deleteAndRunCommands co ec pe a f g cr s = deleteAndRunCommands co ec pe a f g cr' s"
  by (simp add: deleteAndRunCommands_def Let_def split: prod.splits sum.splits)

lemma exec_withConfig:
  "execInWorktree (withConfig r co) g n c i s = execInWorktree co g n c i s"
  by (simp add: exec_unfold withConfig_def split: prod.splits sum.splits)

lemma loop_withConfig:
  "runPostDeleteCommands (withConfig r co) ec pe g cmds s = runPostDeleteCommands co ec pe g cmds s"
  by (induction cmds arbitrary: s)
     (simp_all add: exec_withConfig Let_def split: prod.splits sum.splits)

lemma resolve_withConfig:
  "resolveWorktreeName (withConfig r co) ec a g s = resolveWorktreeName co ec a g s"
  by (simp add: resolveWorktreeName_def call_defs withConfig_def)

lemma delete_withConfig:
  "callDeleteWorktree (withConfig r co) g n f s = callDeleteWorktree co g n f s"
  by (simp add: call_defs withConfig_def)

lemma tail_withConfig:
  "deleteAndRunCommands (withConfig r co) ec pe a f g cr s
     = deleteAndRunCommands co ec pe a f g cr s"
  by (simp add: deleteAndRunCommands_def resolve_withConfig delete_withConfig loop_withConfig
      Let_def split: prod.splits sum.splits option.splits)

text \<open>The handler unfolded down to the part after the loader, and what a run adds to the trace.\<close>

lemma handler_unfold:
  "deleteHandler co ec pe a s =
     (case argumentError ec a of
        Some x \<Rightarrow> (x, s)
      | None \<Rightarrow>
          (case getGitRoot co (world s) of
             (Inl e, w) \<Rightarrow>
               (ExitWithError (message e) (generalError ec),
                \<lparr>world = w, trace = trace s @ [GetGitRoot (Inl e)]\<rparr>)
           | (Inr g, w) \<Rightarrow>
               (case loadConfig co g w of
                  (cr, w2) \<Rightarrow>
                    deleteAndRunCommands co ec pe a (force a = Some True) g cr
                      (warnConfig cr
                         \<lparr>world = w2,
                          trace = trace s @ [GetGitRoot (Inr g), LoadConfig g cr]\<rparr>))))"
  by (simp add: deleteHandler_def call_defs record_call_def Let_def
      split: prod.splits sum.splits option.splits)

lemma handler_withConfig:
  "deleteHandler (withConfig r co) ec pe a s =
     (case argumentError ec a of
        Some x \<Rightarrow> (x, s)
      | None \<Rightarrow>
          (case getGitRoot co (world s) of
             (Inl e, w) \<Rightarrow>
               (ExitWithError (message e) (generalError ec),
                \<lparr>world = w, trace = trace s @ [GetGitRoot (Inl e)]\<rparr>)
           | (Inr g, w) \<Rightarrow>
               deleteAndRunCommands co ec pe a (force a = Some True) g r
                 (warnConfig r
                    \<lparr>world = w, trace = trace s @ [GetGitRoot (Inr g), LoadConfig g r]\<rparr>)))"
  by (simp add: handler_unfold tail_withConfig split: prod.splits sum.splits option.splits)
     (simp add: withConfig_def)

lemma handler_events:
  assumes "deleteHandler co ec pe a s = (x, s')"
  shows "\<exists>t. trace s' = trace s @ t
       \<and> (\<forall>e\<in>set t. failedCall e \<and> (\<forall>g r. e \<noteq> LoadConfig g r)
              \<longrightarrow> (\<exists>m c. x = ExitWithError m c))
       \<and> (\<forall>g ce. LoadConfig g (Inl ce) \<in> set t
              \<longrightarrow> (\<forall>m. ce \<noteq> ConfigNotFoundError m)
              \<longrightarrow> OutputWarn (''Configuration warning: '' @ configMessage ce) \<in> set t)"
proof (cases "argumentError ec a")
  case (Some ex)
  with assms have "s' = s"
    by (simp add: handler_unfold)
  then show ?thesis by simp
next
  case None
  obtain r w where root: "getGitRoot co (world s) = (r, w)"
    by (cases "getGitRoot co (world s)")
  show ?thesis
  proof (cases r)
    case (Inl e)
    with assms None root have "x = ExitWithError (message e) (generalError ec)"
      and "trace s' = trace s @ [GetGitRoot (Inl e)]"
      by (auto simp add: handler_unfold)
    then show ?thesis by auto
  next
    case (Inr g)
    obtain cr w2 where cfg: "loadConfig co g w = (cr, w2)"
      by (cases "loadConfig co g w")
    let ?s2 = "\<lparr>world = w2, trace = trace s @ [GetGitRoot (Inr g), LoadConfig g cr]\<rparr>"
    from assms None root Inr cfg
    have tail: "deleteAndRunCommands co ec pe a (force a = Some True) g cr (warnConfig cr ?s2)
        = (x, s')"
      by (simp add: handler_unfold)
    from tail_events [OF tail] obtain t where
      t: "trace s' = trace (warnConfig cr ?s2) @ t"
      and te: "\<forall>e\<in>set t. (\<forall>g r. e \<noteq> LoadConfig g r) \<and> \<not> isWarning e
             \<and> (failedCall e \<longrightarrow> (\<exists>m c. x = ExitWithError m c))"
      by blast
    obtain ws where ws: "trace (warnConfig cr ?s2) = trace s @ [GetGitRoot (Inr g), LoadConfig g cr] @ ws"
      and ws1: "\<forall>e\<in>set ws. \<not> failedCall e \<and> (\<forall>g r. e \<noteq> LoadConfig g r)"
      and ws2: "\<forall>ce. cr = Inl ce \<longrightarrow> (\<forall>m. ce \<noteq> ConfigNotFoundError m)
              \<longrightarrow> OutputWarn (''Configuration warning: '' @ configMessage ce) \<in> set ws"
    proof (cases cr)
      case (Inl ce)
      then show ?thesis
        by (cases ce) (auto simp add: warnConfig_def emit_def intro: that)
    next
      case (Inr c)
      then show ?thesis
        by (auto simp add: warnConfig_def intro: that)
    qed
    let ?t = "[GetGitRoot (Inr g), LoadConfig g cr] @ ws @ t"
    have "trace s' = trace s @ ?t"
      using t ws by simp
    moreover have "\<forall>e\<in>set ?t. failedCall e \<and> (\<forall>g r. e \<noteq> LoadConfig g r)
              \<longrightarrow> (\<exists>m c. x = ExitWithError m c)"
      using te ws1 by auto
    moreover have "\<forall>g' ce. LoadConfig g' (Inl ce) \<in> set ?t
              \<longrightarrow> (\<forall>m. ce \<noteq> ConfigNotFoundError m)
              \<longrightarrow> OutputWarn (''Configuration warning: '' @ configMessage ce) \<in> set ?t"
      using te ws1 ws2 by auto
    ultimately show ?thesis by blast
  qed
qed


lemma absent_config_like_empty:
  "fst (deleteHandler (withConfig (Inl (ConfigNotFoundError m)) co) ec pe a s)
     = fst (deleteHandler (withConfig (Inr \<lparr>postDelete = None\<rparr>) co) ec pe a s)
   \<and> world (snd (deleteHandler (withConfig (Inl (ConfigNotFoundError m)) co) ec pe a s))
     = world (snd (deleteHandler (withConfig (Inr \<lparr>postDelete = None\<rparr>) co) ec pe a s))
   \<and> filter isOutput (trace (snd (deleteHandler (withConfig (Inl (ConfigNotFoundError m)) co) ec pe a s)))
     = filter isOutput (trace (snd (deleteHandler (withConfig (Inr \<lparr>postDelete = None\<rparr>) co) ec pe a s)))
   \<and> filter isWarning (trace (snd (deleteHandler (withConfig (Inl (ConfigNotFoundError m)) co) ec pe a s)))
     = filter isWarning (trace s)"
proof (cases "argumentError ec a")
  case (Some ex)
  then show ?thesis
    by (simp add: handler_withConfig)
next
  case None
  obtain r w where root: "getGitRoot co (world s) = (r, w)"
    by (cases "getGitRoot co (world s)")
  show ?thesis
  proof (cases r)
    case (Inl e)
    with None root show ?thesis
      by (simp add: handler_withConfig)
  next
    case (Inr g)
    let ?nf = "Inl (ConfigNotFoundError m) :: config_error + phantom_config"
    let ?em = "Inr \<lparr>postDelete = None\<rparr> :: config_error + phantom_config"
    let ?T0 = "trace s @ [GetGitRoot (Inr g), LoadConfig g ?nf]"
    let ?T1 = "trace s @ [GetGitRoot (Inr g), LoadConfig g ?em]"
    let ?f = "force a = Some True"
    obtain x s1 where base:
      "deleteAndRunCommands co ec pe a ?f g ?nf \<lparr>world = w, trace = []\<rparr> = (x, s1)"
      by (cases "deleteAndRunCommands co ec pe a ?f g ?nf \<lparr>world = w, trace = []\<rparr>")
    have none: "postDeleteCommandsOf ?nf = None" "postDeleteCommandsOf ?em = None"
      by (simp_all add: postDeleteCommandsOf_def)
    have "deleteAndRunCommands co ec pe a ?f g ?em \<lparr>world = w, trace = []\<rparr>
        = deleteAndRunCommands co ec pe a ?f g ?nf \<lparr>world = w, trace = []\<rparr>"
      by (rule tail_config_irrelevant) (simp add: none)
    with base
    have base': "deleteAndRunCommands co ec pe a ?f g ?em \<lparr>world = w, trace = []\<rparr> = (x, s1)"
      by simp
    have h0: "deleteHandler (withConfig ?nf co) ec pe a s
        = (x, \<lparr>world = world s1, trace = ?T0 @ trace s1\<rparr>)"
      using None root Inr base tail_shift [OF none(1), of co ec pe a ?f g w ?T0]
      by (simp add: handler_withConfig warnConfig_def)
    have h1: "deleteHandler (withConfig ?em co) ec pe a s
        = (x, \<lparr>world = world s1, trace = ?T1 @ trace s1\<rparr>)"
      using None root Inr base' tail_shift [OF none(2), of co ec pe a ?f g w ?T1]
      by (simp add: handler_withConfig warnConfig_def)
    from tail_events [OF base] have "\<forall>e\<in>set (trace s1). \<not> isWarning e"
      by auto
    then have "filter isWarning (trace s1) = []"
      by (simp add: filter_empty_conv)
    then show ?thesis
      by (simp add: h0 h1)
  qed
qed

text \<open>The single steps of the handler, from the answers of the collaborators.\<close>

lemma handler_at_loader:
  assumes "argumentError ec a = None" and "getGitRoot co (world s) = (Inr g, w)"
    and "loadConfig co g w = (cr, w2)"
  shows "deleteHandler co ec pe a s =
     deleteAndRunCommands co ec pe a (force a = Some True) g cr
       (warnConfig cr \<lparr>world = w2, trace = trace s @ [GetGitRoot (Inr g), LoadConfig g cr]\<rparr>)"
  using assms by (simp add: handler_unfold)

lemma warn_parse:
  "warnConfig (Inl (ConfigParseError m)) s
     = s\<lparr>trace := trace s @ [OutputWarn (''Configuration warning: '' @ configMessage (ConfigParseError m))]\<rparr>"
  by (simp add: warnConfig_def emit_def)

lemma warn_validation:
  "warnConfig (Inl (ConfigValidationError m)) s
     = s\<lparr>trace := trace s @ [OutputWarn (''Configuration warning: '' @ configMessage (ConfigValidationError m))]\<rparr>"
  by (simp add: warnConfig_def emit_def)

lemma step_wt:
  assumes "ce = ConfigParseError m \<or> ce = ConfigValidationError m"
  shows "trace (warnConfig (Inl ce) s2) = trace s2 @ [OutputWarn (''Configuration warning: '' @ configMessage ce)]"
  using assms
proof
  assume "ce = ConfigParseError m"
  then show ?thesis by (simp add: warn_parse)
next
  assume "ce = ConfigValidationError m"
  then show ?thesis by (simp add: warn_validation)
qed

lemma tail_appends:
  "\<exists>t. trace (snd (deleteAndRunCommands co ec pe a f g cr s3)) = trace s3 @ t"
proof -
  obtain x s' where tail: "deleteAndRunCommands co ec pe a f g cr s3 = (x, s')"
    by (cases "deleteAndRunCommands co ec pe a f g cr s3")
  have "\<exists>t. trace s' = trace s3 @ t"
    using tail_events [OF tail] by (elim exE conjE) (rule exI)
  then show ?thesis
    by (simp only: tail snd_conv)
qed

lemma malformed_config_warns:
  assumes "argumentError ec a = None" and "getGitRoot co (world s) = (Inr g, w)"
    and "loadConfig co g w = (Inl ce, w2)"
    and "ce = ConfigParseError m \<or> ce = ConfigValidationError m"
  shows "\<exists>t. trace (snd (deleteHandler co ec pe a s)) =
     trace s @ [GetGitRoot (Inr g), LoadConfig g (Inl ce),
                OutputWarn (''Configuration warning: '' @ configMessage ce)] @ t"
proof -
  let ?s2 = "\<lparr>world = w2, trace = trace s @ [GetGitRoot (Inr g), LoadConfig g (Inl ce)]\<rparr>"
  have h: "deleteHandler co ec pe a s
      = deleteAndRunCommands co ec pe a (force a = Some True) g (Inl ce)
          (warnConfig (Inl ce) ?s2)"
    by (rule handler_at_loader [OF assms(1-3)])
  have wt: "trace (warnConfig (Inl ce) ?s2)
      = trace ?s2 @ [OutputWarn (''Configuration warning: '' @ configMessage ce)]"
    by (rule step_wt [OF assms(4)])
  from tail_appends [of co ec pe a "force a = Some True" g "Inl ce" "warnConfig (Inl ce) ?s2"]
  obtain t where "trace (snd (deleteHandler co ec pe a s))
      = trace (warnConfig (Inl ce) ?s2) @ t"
    unfolding h by (elim exE)
  then have "trace (snd (deleteHandler co ec pe a s)) =
     trace s @ [GetGitRoot (Inr g), LoadConfig g (Inl ce),
                OutputWarn (''Configuration warning: '' @ configMessage ce)] @ t"
    by (simp add: wt)
  then show ?thesis
    by (rule exI)
qed

lemma warnConfig_world: "world (warnConfig cr s) = world s"
  by (simp add: warnConfig_def emit_def split: sum.splits config_error.splits)

lemma absent_config_deletes:
  assumes "argumentError ec a = None" and "current a \<noteq> Some True" and "fzf a \<noteq> Some True"
    and "getGitRoot co (world s) = (Inr g, w)"
    and "deleteWorktree co g (hd (positionals a)) (force a = Some True) w = (Inr v, w3)"
  shows "deleteHandler (withConfig (Inl (ConfigNotFoundError m)) co) ec pe a s =
     (ExitWithSuccess,
      \<lparr>world = w3,
       trace = trace s @ [GetGitRoot (Inr g), LoadConfig g (Inl (ConfigNotFoundError m)),
                 DeleteWorktree g (hd (positionals a)) (force a = Some True) (Inr v),
                 OutputLog (deleteMessage v)]\<rparr>)"
  using assms
  by (simp add: handler_withConfig deleteAndRunCommands_def resolveWorktreeName_def
      warnConfig_def postDeleteCommandsOf_def call_defs record_call_def emit_def Let_def)

lemma root_failure_exits:
  assumes "argumentError ec a = None" and "getGitRoot co (world s) = (Inl err, w)"
  shows "deleteHandler co ec pe a s =
     (ExitWithError (message err) (generalError ec),
      \<lparr>world = w, trace = trace s @ [GetGitRoot (Inl err)]\<rparr>)"
  using assms by (simp add: handler_unfold)

lemma delete_failure_exits:
  assumes "argumentError ec a = None" and "current a \<noteq> Some True" and "fzf a \<noteq> Some True"
    and "getGitRoot co (world s) = (Inr g, w)"
    and "loadConfig co g w = (cr, w2)"
    and "deleteWorktree co g (hd (positionals a)) (force a = Some True) w2 = (Inl err, w3)"
  shows "fst (deleteHandler co ec pe a s) = ExitWithError (message err) (deleteExitCode ec err)"
  using assms
  by (simp add: handler_unfold deleteAndRunCommands_def resolveWorktreeName_def
      warnConfig_world call_defs record_call_def Let_def)

lemma failed_call_exits:
  assumes "e \<in> set (drop (length (trace s)) (trace (snd (deleteHandler co ec pe a s))))"
    and "failedCall e" and "\<forall>g r. e \<noteq> LoadConfig g r"
  shows "\<exists>msg code. fst (deleteHandler co ec pe a s) = ExitWithError msg code"
proof -
  obtain x s' where run: "deleteHandler co ec pe a s = (x, s')"
    by (cases "deleteHandler co ec pe a s")
  from handler_events [OF run] obtain t where
    t: "trace s' = trace s @ t"
    and t1: "\<forall>e\<in>set t. failedCall e \<and> (\<forall>g r. e \<noteq> LoadConfig g r)
              \<longrightarrow> (\<exists>m c. x = ExitWithError m c)"
    by (elim exE conjE)
  have "drop (length (trace s)) (trace (snd (deleteHandler co ec pe a s))) = t"
    using run t by simp
  with assms(1) have "e \<in> set t"
    by simp
  with t1 assms(2,3) have "\<exists>m c. x = ExitWithError m c"
    by blast
  then show ?thesis
    by (simp add: run)
qed

text \<open>
  Claim C7: an absent configuration file is not an error and counts as ``no hooks
  configured''; a malformed one is reported; nothing else is swallowed. On the delete
  handler, from the answers of the collaborators: when the loader answers
  ConfigNotFoundError, the handler ends as it does for a loaded configuration without
  post-delete commands (same exit, same world, same output) and prints no warning, and
  when the deletion then succeeds the handler ends with success having called the root,
  the loader and the deletion and nothing else; when the arguments are accepted, the root
  is found and the loader answers a parse or validation error, the warning with the
  error's message is printed right after the loader's answer; when the root cannot be
  found or the deletion fails, the handler ends with that error; and any collaborator
  call other than the loader's that fails during a run ends the handler with an error
  exit.
\<close>

theorem absent_config_is_silent:
  "fst (deleteHandler (withConfig (Inl (ConfigNotFoundError m)) co) ec pe a s)
     = fst (deleteHandler (withConfig (Inr \<lparr>postDelete = None\<rparr>) co) ec pe a s)
   \<and> world (snd (deleteHandler (withConfig (Inl (ConfigNotFoundError m)) co) ec pe a s))
     = world (snd (deleteHandler (withConfig (Inr \<lparr>postDelete = None\<rparr>) co) ec pe a s))
   \<and> filter isOutput (trace (snd (deleteHandler (withConfig (Inl (ConfigNotFoundError m)) co) ec pe a s)))
     = filter isOutput (trace (snd (deleteHandler (withConfig (Inr \<lparr>postDelete = None\<rparr>) co) ec pe a s)))
   \<and> filter isWarning (trace (snd (deleteHandler (withConfig (Inl (ConfigNotFoundError m)) co) ec pe a s)))
     = filter isWarning (trace s)
   \<and> (argumentError ec a = None \<and> current a \<noteq> Some True \<and> fzf a \<noteq> Some True
        \<and> getGitRoot co (world s) = (Inr g, w)
        \<and> deleteWorktree co g (hd (positionals a)) (force a = Some True) w = (Inr v, w3) \<longrightarrow>
      deleteHandler (withConfig (Inl (ConfigNotFoundError m)) co) ec pe a s =
        (ExitWithSuccess,
         \<lparr>world = w3,
          trace = trace s @ [GetGitRoot (Inr g), LoadConfig g (Inl (ConfigNotFoundError m)),
                    DeleteWorktree g (hd (positionals a)) (force a = Some True) (Inr v),
                    OutputLog (deleteMessage v)]\<rparr>))
   \<and> (argumentError ec a = None \<and> getGitRoot co (world s) = (Inr g, w)
        \<and> loadConfig co g w = (Inl ce, w2)
        \<and> (ce = ConfigParseError reason \<or> ce = ConfigValidationError reason) \<longrightarrow>
      (\<exists>t. trace (snd (deleteHandler co ec pe a s)) =
         trace s @ [GetGitRoot (Inr g), LoadConfig g (Inl ce),
                    OutputWarn (''Configuration warning: '' @ configMessage ce)] @ t))
   \<and> (argumentError ec a = None \<and> getGitRoot co (world s) = (Inl err, w) \<longrightarrow>
      deleteHandler co ec pe a s =
        (ExitWithError (message err) (generalError ec),
         \<lparr>world = w, trace = trace s @ [GetGitRoot (Inl err)]\<rparr>))
   \<and> (argumentError ec a = None \<and> current a \<noteq> Some True \<and> fzf a \<noteq> Some True
        \<and> getGitRoot co (world s) = (Inr g, w)
        \<and> loadConfig co g w = (cr, w2)
        \<and> deleteWorktree co g (hd (positionals a)) (force a = Some True) w2 = (Inl err, w3) \<longrightarrow>
      fst (deleteHandler co ec pe a s) = ExitWithError (message err) (deleteExitCode ec err))
   \<and> (e \<in> set (drop (length (trace s)) (trace (snd (deleteHandler co ec pe a s))))
        \<and> failedCall e \<and> (\<forall>g r. e \<noteq> LoadConfig g r) \<longrightarrow>
      (\<exists>msg code. fst (deleteHandler co ec pe a s) = ExitWithError msg code))"
proof (intro conjI impI)
  note like = absent_config_like_empty [of m co ec pe a s]
  show "fst (deleteHandler (withConfig (Inl (ConfigNotFoundError m)) co) ec pe a s)
     = fst (deleteHandler (withConfig (Inr \<lparr>postDelete = None\<rparr>) co) ec pe a s)"
    by (rule like [THEN conjunct1])
  show "world (snd (deleteHandler (withConfig (Inl (ConfigNotFoundError m)) co) ec pe a s))
     = world (snd (deleteHandler (withConfig (Inr \<lparr>postDelete = None\<rparr>) co) ec pe a s))"
    by (rule like [THEN conjunct2, THEN conjunct1])
  show "filter isOutput (trace (snd (deleteHandler (withConfig (Inl (ConfigNotFoundError m)) co) ec pe a s)))
     = filter isOutput (trace (snd (deleteHandler (withConfig (Inr \<lparr>postDelete = None\<rparr>) co) ec pe a s)))"
    by (rule like [THEN conjunct2, THEN conjunct2, THEN conjunct1])
  show "filter isWarning (trace (snd (deleteHandler (withConfig (Inl (ConfigNotFoundError m)) co) ec pe a s)))
     = filter isWarning (trace s)"
    by (rule like [THEN conjunct2, THEN conjunct2, THEN conjunct2])
next
  assume "argumentError ec a = None \<and> current a \<noteq> Some True \<and> fzf a \<noteq> Some True
        \<and> getGitRoot co (world s) = (Inr g, w)
        \<and> deleteWorktree co g (hd (positionals a)) (force a = Some True) w = (Inr v, w3)"
  then show "deleteHandler (withConfig (Inl (ConfigNotFoundError m)) co) ec pe a s =
        (ExitWithSuccess,
         \<lparr>world = w3,
          trace = trace s @ [GetGitRoot (Inr g), LoadConfig g (Inl (ConfigNotFoundError m)),
                    DeleteWorktree g (hd (positionals a)) (force a = Some True) (Inr v),
                    OutputLog (deleteMessage v)]\<rparr>)"
    by (elim conjE) (rule absent_config_deletes)
next
  assume "argumentError ec a = None \<and> getGitRoot co (world s) = (Inr g, w)
        \<and> loadConfig co g w = (Inl ce, w2)
        \<and> (ce = ConfigParseError reason \<or> ce = ConfigValidationError reason)"
  then show "\<exists>t. trace (snd (deleteHandler co ec pe a s)) =
         trace s @ [GetGitRoot (Inr g), LoadConfig g (Inl ce),
                    OutputWarn (''Configuration warning: '' @ configMessage ce)] @ t"
    by (elim conjE) (rule malformed_config_warns)
next
  assume "argumentError ec a = None \<and> getGitRoot co (world s) = (Inl err, w)"
  then show "deleteHandler co ec pe a s =
        (ExitWithError (message err) (generalError ec),
         \<lparr>world = w, trace = trace s @ [GetGitRoot (Inl err)]\<rparr>)"
    by (elim conjE) (rule root_failure_exits)
next
  assume "argumentError ec a = None \<and> current a \<noteq> Some True \<and> fzf a \<noteq> Some True
        \<and> getGitRoot co (world s) = (Inr g, w)
        \<and> loadConfig co g w = (cr, w2)
        \<and> deleteWorktree co g (hd (positionals a)) (force a = Some True) w2 = (Inl err, w3)"
  then show "fst (deleteHandler co ec pe a s) = ExitWithError (message err) (deleteExitCode ec err)"
    by (elim conjE) (rule delete_failure_exits)
next
  assume "e \<in> set (drop (length (trace s)) (trace (snd (deleteHandler co ec pe a s))))
        \<and> failedCall e \<and> (\<forall>g r. e \<noteq> LoadConfig g r)"
  then show "\<exists>msg code. fst (deleteHandler co ec pe a s) = ExitWithError msg code"
    by (elim conjE) (rule failed_call_exits)
qed

text \<open>
  On the simulated backend: a missing file, a file that does not parse, no repository, and
  a worktree that is not there.
\<close>

lemmas sim_handler = handler_unfold deleteAndRunCommands_def resolveWorktreeName_def
  argumentError_def warnConfig_def postDeleteCommandsOf_def deleteExitCode_def call_defs
  record_call_def emit_def Let_def sim_defs quoted_def

theorem absent_config_is_silent_witness:
  "deleteHandler (withConfig (Inl (ConfigNotFoundError ''no file'')) simBackend) simExitCodes []
          \<lparr>force = None, current = None, fzf = None, positionals = [''dev'']\<rparr>
          (simStart [''/repo/.git/phantom/worktrees/dev''] [''dev''])
     = (ExitWithSuccess,
        \<lparr>world = \<lparr>dirs = [], branches = [''dev''], started = []\<rparr>,
         trace = [GetGitRoot (Inr ''/repo''),
                  LoadConfig ''/repo'' (Inl (ConfigNotFoundError ''no file'')),
                  DeleteWorktree ''/repo'' ''dev'' False
                    (Inr \<lparr>deleteMessage = ''Deleted worktree '' @ quoted ''dev''\<rparr>),
                  OutputLog (''Deleted worktree '' @ quoted ''dev'')]\<rparr>)
   \<and> (\<exists>t. trace (snd (deleteHandler
              (withConfig (Inl (ConfigParseError ''Unexpected token'')) simBackend)
              simExitCodes [] \<lparr>force = None, current = None, fzf = None, positionals = [''dev'']\<rparr>
              (simStart [''/repo/.git/phantom/worktrees/dev''] [''dev''])))
          = [GetGitRoot (Inr ''/repo''),
             LoadConfig ''/repo'' (Inl (ConfigParseError ''Unexpected token'')),
             OutputWarn ''Configuration warning: Unexpected token''] @ t)
   \<and> deleteHandler noRepository simExitCodes []
          \<lparr>force = None, current = None, fzf = None, positionals = [''dev'']\<rparr>
          (simStart [''/repo/.git/phantom/worktrees/dev''] [''dev''])
     = (ExitWithError ''fatal: not a git repository'' 1,
        \<lparr>world = \<lparr>dirs = [''/repo/.git/phantom/worktrees/dev''], branches = [''dev''],
                  started = []\<rparr>,
         trace = [GetGitRoot (Inl (ExternalError ''fatal: not a git repository'' (Some 128)))]\<rparr>)
   \<and> fst (deleteHandler simBackend simExitCodes []
              \<lparr>force = None, current = None, fzf = None, positionals = [''gone'']\<rparr>
              (simStart [] [''dev'']))
     = ExitWithError (message (WorktreeNotFoundError ''gone'')) 3
   \<and> DeleteWorktree ''/repo'' ''gone'' False (Inl (WorktreeNotFoundError ''gone''))
        \<in> set (trace (snd (deleteHandler simBackend simExitCodes []
              \<lparr>force = None, current = None, fzf = None, positionals = [''gone'']\<rparr>
              (simStart [] [''dev'']))))
   \<and> (\<exists>msg code. fst (deleteHandler simBackend simExitCodes []
              \<lparr>force = None, current = None, fzf = None, positionals = [''gone'']\<rparr>
              (simStart [] [''dev''])) = ExitWithError msg code)"
proof -
  let ?a = "\<lparr>force = None, current = None, fzf = None, positionals = [''dev'']\<rparr>"
  let ?gone = "\<lparr>force = None, current = None, fzf = None, positionals = [''gone'']\<rparr>"
  let ?s = "simStart [''/repo/.git/phantom/worktrees/dev''] [''dev'']"
  let ?none = "simStart [] [''dev'']"
  let ?pc = "withConfig (Inl (ConfigParseError ''Unexpected token'')) simBackend"
  let ?del = "DeleteWorktree ''/repo'' ''gone'' False (Inl (WorktreeNotFoundError ''gone''))"
  have args: "argumentError simExitCodes ?a = None" "argumentError simExitCodes ?gone = None"
    "current ?a \<noteq> Some True" "fzf ?a \<noteq> Some True"
    "current ?gone \<noteq> Some True" "fzf ?gone \<noteq> Some True"
    by (simp_all add: argumentError_def)
  have t0: "trace ?s = []" "trace ?none = []"
    by (simp_all add: simStart_def)
  have root: "getGitRoot simBackend (world ?s) = (Inr ''/repo'', world ?s)"
    "getGitRoot ?pc (world ?s) = (Inr ''/repo'', world ?s)"
    "getGitRoot simBackend (world ?none) = (Inr ''/repo'', world ?none)"
    "getGitRoot noRepository (world ?s)
       = (Inl (ExternalError ''fatal: not a git repository'' (Some 128)), world ?s)"
    by (simp_all add: sim_defs noRepository_def)
  have del: "deleteWorktree simBackend ''/repo'' (hd (positionals ?a)) (force ?a = Some True)
        (world ?s)
      = (Inr \<lparr>deleteMessage = ''Deleted worktree '' @ quoted ''dev''\<rparr>,
         \<lparr>dirs = [], branches = [''dev''], started = []\<rparr>)"
    by (simp add: sim_defs)
  have load: "loadConfig ?pc ''/repo'' (world ?s)
      = (Inl (ConfigParseError ''Unexpected token''), world ?s)"
    "loadConfig simBackend ''/repo'' (world ?none) = (Inr \<lparr>postDelete = None\<rparr>, world ?none)"
    by (simp_all add: sim_defs)
  have delgone: "deleteWorktree simBackend ''/repo'' (hd (positionals ?gone))
        (force ?gone = Some True) (world ?none)
      = (Inl (WorktreeNotFoundError ''gone''), world ?none)"
    by (simp add: sim_defs)
  have hc: "?del \<in> set (drop (length (trace ?none))
      (trace (snd (deleteHandler simBackend simExitCodes [] ?gone ?none))))"
    by (simp add: sim_handler)
  have hc': "failedCall ?del \<and> (\<forall>g r. ?del \<noteq> LoadConfig g r)"
    by simp
  have code: "deleteExitCode simExitCodes (WorktreeNotFoundError ''gone'') = 3"
    "generalError simExitCodes = 1"
    by (simp_all add: deleteExitCode_def simExitCodes_def)
  note a = absent_config_is_silent [where m = "''no file''" and co = simBackend
      and ec = simExitCodes and pe = "[]" and a = ?a and s = ?s and g = "''/repo''"
      and w = "world ?s" and v = "\<lparr>deleteMessage = ''Deleted worktree '' @ quoted ''dev''\<rparr>"
      and ?w3.0 = "\<lparr>dirs = [], branches = [''dev''], started = []\<rparr>",
      THEN conjunct2, THEN conjunct2, THEN conjunct2, THEN conjunct2, THEN conjunct1]
  note b = absent_config_is_silent [where co = ?pc and ec = simExitCodes and pe = "[]"
      and a = ?a and s = ?s and g = "''/repo''" and w = "world ?s"
      and ce = "ConfigParseError ''Unexpected token''" and ?w2.0 = "world ?s"
      and reason = "''Unexpected token''",
      THEN conjunct2, THEN conjunct2, THEN conjunct2, THEN conjunct2, THEN conjunct2,
      THEN conjunct1]
  note c1 = absent_config_is_silent [where co = noRepository and ec = simExitCodes
      and pe = "[]" and a = ?a and s = ?s and w = "world ?s"
      and err = "ExternalError ''fatal: not a git repository'' (Some 128)",
      THEN conjunct2, THEN conjunct2, THEN conjunct2, THEN conjunct2, THEN conjunct2,
      THEN conjunct2, THEN conjunct1]
  note c2 = absent_config_is_silent [where co = simBackend and ec = simExitCodes
      and pe = "[]" and a = ?gone and s = ?none and g = "''/repo''" and w = "world ?none"
      and cr = "Inr \<lparr>postDelete = None\<rparr>" and ?w2.0 = "world ?none"
      and err = "WorktreeNotFoundError ''gone''" and ?w3.0 = "world ?none",
      THEN conjunct2, THEN conjunct2, THEN conjunct2, THEN conjunct2, THEN conjunct2,
      THEN conjunct2, THEN conjunct2, THEN conjunct1]
  note c3 = absent_config_is_silent [where co = simBackend and ec = simExitCodes
      and pe = "[]" and a = ?gone and s = ?none and e = ?del,
      THEN conjunct2, THEN conjunct2, THEN conjunct2, THEN conjunct2, THEN conjunct2,
      THEN conjunct2, THEN conjunct2, THEN conjunct2]
  have r1: "deleteHandler (withConfig (Inl (ConfigNotFoundError ''no file'')) simBackend)
      simExitCodes [] ?a ?s
     = (ExitWithSuccess,
        \<lparr>world = \<lparr>dirs = [], branches = [''dev''], started = []\<rparr>,
         trace = [GetGitRoot (Inr ''/repo''),
                  LoadConfig ''/repo'' (Inl (ConfigNotFoundError ''no file'')),
                  DeleteWorktree ''/repo'' ''dev'' False
                    (Inr \<lparr>deleteMessage = ''Deleted worktree '' @ quoted ''dev''\<rparr>),
                  OutputLog (''Deleted worktree '' @ quoted ''dev'')]\<rparr>)"
    using a args root del t0 by simp
  have r2: "\<exists>t. trace (snd (deleteHandler ?pc simExitCodes [] ?a ?s))
          = [GetGitRoot (Inr ''/repo''),
             LoadConfig ''/repo'' (Inl (ConfigParseError ''Unexpected token'')),
             OutputWarn ''Configuration warning: Unexpected token''] @ t"
    using b args root load t0 by simp
  have r3: "deleteHandler noRepository simExitCodes [] ?a ?s
     = (ExitWithError ''fatal: not a git repository'' 1,
        \<lparr>world = \<lparr>dirs = [''/repo/.git/phantom/worktrees/dev''], branches = [''dev''],
                  started = []\<rparr>,
         trace = [GetGitRoot (Inl (ExternalError ''fatal: not a git repository'' (Some 128)))]\<rparr>)"
    using c1 args root t0 code by (simp add: simStart_def)
  have r4: "fst (deleteHandler simBackend simExitCodes [] ?gone ?none)
     = ExitWithError (message (WorktreeNotFoundError ''gone'')) 3"
    using c2 args root load delgone code by simp
  have r5: "\<exists>msg code. fst (deleteHandler simBackend simExitCodes [] ?gone ?none)
      = ExitWithError msg code"
    using c3 hc hc' by simp
  have r6: "?del \<in> set (trace (snd (deleteHandler simBackend simExitCodes [] ?gone ?none)))"
    using hc t0 by simp
  show ?thesis
    using r1 r2 r3 r4 r5 r6 by (intro conjI)
qed

end
